theory Spec2Isabelle
  imports Main
begin

section \<open>The kpt (v2) deployer: data model\<close>

text \<open>
  The development embeds \<^verbatim>\<open>pkg/skaffold/deploy/v2/kpt/kpt.go\<close>. Go values that are
  returned together with an \<^verbatim>\<open>error\<close> become pairs whose error component is an
  \<open>error option\<close> (\<open>None\<close> is Go's \<^verbatim>\<open>nil\<close> error); a slice that may be \<^verbatim>\<open>nil\<close> is a
  \<open>list option\<close> (\<open>None\<close> is the nil slice). Mutation of the receiver \<^verbatim>\<open>k *Deployer\<close>,
  of the file system and every observable call to a collaborator are threaded through
  explicitly: each operation returns the updated deployer and the updated world. The
  context, the output writer handed to the external commands and the instrumentation
  traces decide nothing in these functions and are left out.

  A call either returns its results or panics; a panic is not an error value, it ends
  the calling function too, none of the functions here recovers from one.
\<close>

datatype 'a outcome = Returns 'a | Panics string

text \<open>
  Modelled from the spec: the error wrappers \<^verbatim>\<open>pkgInitErr\<close>, \<^verbatim>\<open>openFileErr\<close>,
  \<^verbatim>\<open>parseFileErr\<close>, \<^verbatim>\<open>liveInitErr\<close>, \<^verbatim>\<open>liveApplyErr\<close> and \<^verbatim>\<open>sourceErr\<close> are declared in
  another file of the package. The spec describes them as error kinds that carry the
  underlying failure and the offending path, so each is a constructor that keeps both.
  \<open>Err\<close> is an error produced outside this package (a failed process, the operating
  system, the YAML library); \<open>Errorf\<close> is \<^verbatim>\<open>fmt.Errorf\<close> with a format, its plain
  arguments and the error wrapped by \<^verbatim>\<open>%w\<close>.
\<close>

datatype error =
    Err string
  | pkgInitErr error string
  | openFileErr error string
  | parseFileErr error string
  | liveInitErr error string
  | liveApplyErr error string
  | sourceErr error string
  | Errorf string "string list" error

text \<open>
  Modelled from the spec: the types \<^verbatim>\<open>kptfile.KptFile\<close> and \<^verbatim>\<open>kptfile.Inventory\<close> are
  declared in another package. The spec gives the inventory block the three keys this
  code reads and writes; the block is optional (a nil pointer when absent).
\<close>

record Inventory =
  Namespace :: string
  Name :: string
  InventoryID :: string

record KptFile =
  Inventory :: "Inventory option"

text \<open>
  Modelled from the spec: \<^verbatim>\<open>latestV2.KptV2Deploy\<close> is declared in the schema package;
  these are the fields of it that the deployer reads. The desired inventory of the
  spec is \<open>Name\<close>, \<open>InventoryID\<close> and \<open>InventoryNamespace\<close> of this record together with
  the field \<open>namespace\<close> of the deployer (the per-unit namespace).
\<close>

record KptV2Deploy =
  Dir :: string
  ApplyFlags :: "string list"
  Flags :: "string list"
  Name :: string
  InventoryID :: string
  InventoryNamespace :: string
  Force :: bool

text \<open>
  The \<^verbatim>\<open>Deployer\<close> struct. The embedded \<^verbatim>\<open>*latestV2.KptV2Deploy\<close> is the field
  \<open>KptV2Deploy\<close>. The accessor, logger, debugger, status monitor, syncer, pod selector
  and the kube configuration strings are not read by the functions embedded here;
  what \<^verbatim>\<open>TrackBuildArtifacts\<close> hands to the pod selector and to the logger is recorded
  as events.
\<close>

record Deployer =
  KptV2Deploy :: KptV2Deploy
  applyDir :: string
  namespace :: string

type_synonym Artifact = "string \<times> string"

subsection \<open>The world outside the process\<close>

text \<open>
  A file has read and write permission bits and its bytes; a file system maps paths to
  files. The operating-system calls of the source are given the semantics below.
\<close>

datatype osfile = File (readable: bool) (writable: bool) (contents: string)

type_synonym filesystem = "string \<Rightarrow> osfile option"

text \<open>
  Everything the deployer does that a caller or a test double can observe, in order:
  running an external command (name and arguments), a \<^verbatim>\<open>logrus.Warnf\<close> record (format
  and arguments), a call of \<^verbatim>\<open>ioutil.WriteFile\<close> (path and bytes),
  \<^verbatim>\<open>event.DeployInfoEvent\<close>, and the two calls made by \<^verbatim>\<open>TrackBuildArtifacts\<close>,
  \<^verbatim>\<open>deployutil.AddTagsToPodSelector\<close> and \<^verbatim>\<open>logger.RegisterArtifacts\<close>.
\<close>

datatype event =
    Exec "string list"
  | Warnf string "string list"
  | WriteFile string string
  | DeployInfoEvent error
  | AddTagsToPodSelector "Artifact list"
  | RegisterArtifacts "Artifact list"

record world =
  fs :: filesystem
  events :: "event list"

text \<open>
  The collaborators are parameters. \<open>runCmd\<close> is \<^verbatim>\<open>util.RunCmd\<close> on a command line: it
  may fail and may change the file system. \<open>runCmdOut\<close> is \<^verbatim>\<open>util.RunCmdOut\<close>, which also
  returns the bytes of standard output. \<open>decode\<close> and \<open>marshal\<close> are the YAML library on
  \<^verbatim>\<open>KptFile\<close>; \<open>decode\<close> is \<^verbatim>\<open>Decode(&kfConfig)\<close>, which is given the address of the
  pointer \<^verbatim>\<open>kfConfig\<close> and, on a null document, reports no error and leaves that
  pointer nil (\<open>Inr None\<close>). \<open>resourceList_Read\<close> and \<open>rnode_String\<close> are kyaml's
  \<^verbatim>\<open>framework.ResourceList.Read\<close> and \<^verbatim>\<open>RNode.String\<close> over resource nodes of type \<open>'r\<close>.
  \<open>manifestList_Append\<close> and \<open>CollectNamespaces\<close> are the methods of
  \<^verbatim>\<open>manifest.ManifestList\<close>, and \<open>filepath_Join\<close> is \<^verbatim>\<open>filepath.Join\<close>.
\<close>

type_synonym ManifestList = "string list option"

record 'r env =
  runCmd :: "string list \<Rightarrow> filesystem \<Rightarrow> error option \<times> filesystem"
  runCmdOut :: "string list \<Rightarrow> filesystem \<Rightarrow> (string \<times> error option) \<times> filesystem"
  decode :: "string \<Rightarrow> error + KptFile option"
  marshal :: "KptFile \<Rightarrow> error + string"
  resourceList_Read :: "string \<Rightarrow> error + 'r list"
  rnode_String :: "'r \<Rightarrow> error + string"
  manifestList_Append :: "ManifestList \<Rightarrow> string \<Rightarrow> ManifestList"
  CollectNamespaces :: "ManifestList \<Rightarrow> string list option \<times> error option"
  filepath_Join :: "string \<Rightarrow> string \<Rightarrow> string"

definition deployerName :: string where
  "deployerName = ''kptV2''"

definition defaultNs :: string where
  "defaultNs = ''default''"

text \<open>
  Modelled from the spec: \<^verbatim>\<open>kptfile.KptFileName\<close> is declared in another package; the
  spec calls the state file the Kptfile.
\<close>

definition KptFileName :: string where
  "KptFileName = ''Kptfile''"

text \<open>\<^verbatim>\<open>os.Stat\<close> followed by \<^verbatim>\<open>os.IsNotExist\<close>: true when nothing is at the path.\<close>

definition os_Stat_IsNotExist :: "filesystem \<Rightarrow> string \<Rightarrow> bool" where
  "os_Stat_IsNotExist f p = (f p = None)"

text \<open>
  The package variable \<^verbatim>\<open>openFile\<close>, at its initial value \<^verbatim>\<open>os.Open\<close>; the bytes are what
  the decoder then reads from the handle.
\<close>

definition openFile :: "filesystem \<Rightarrow> string \<Rightarrow> error + string" where
  "openFile f p =
     (case f p of
        None \<Rightarrow> Inl (Err ''no such file or directory'')
      | Some x \<Rightarrow> if readable x then Inr (contents x) else Inl (Err ''permission denied''))"

text \<open>
  \<^verbatim>\<open>ioutil.WriteFile\<close>: the call is recorded whether or not it succeeds; it replaces the
  bytes of a writable file and creates a missing one.
\<close>

definition ioutil_WriteFile :: "string \<Rightarrow> string \<Rightarrow> world \<Rightarrow> error option \<times> world" where
  "ioutil_WriteFile p b w =
     (let w = w\<lparr>events := events w @ [WriteFile p b]\<rparr>
      in case fs w p of
           None \<Rightarrow> (None, w\<lparr>fs := (fs w)(p \<mapsto> File True True b)\<rparr>)
         | Some x \<Rightarrow>
             if writable x then (None, w\<lparr>fs := (fs w)(p \<mapsto> File (readable x) True b)\<rparr>)
             else (Some (Err ''permission denied''), w))"

definition RunCmd :: "'r env \<Rightarrow> string list \<Rightarrow> world \<Rightarrow> error option \<times> world" where
  "RunCmd env cmd w =
     (let (r, f) = runCmd env cmd (fs w)
      in (r, w\<lparr>fs := f, events := events w @ [Exec cmd]\<rparr>))"

definition RunCmdOut :: "'r env \<Rightarrow> string list \<Rightarrow> world \<Rightarrow> (string \<times> error option) \<times> world" where
  "RunCmdOut env cmd w =
     (let (r, f) = runCmdOut env cmd (fs w)
      in (r, w\<lparr>fs := f, events := events w @ [Exec cmd]\<rparr>))"

definition logrus_Warnf :: "string \<Rightarrow> string list \<Rightarrow> world \<Rightarrow> world" where
  "logrus_Warnf fmt args w = w\<lparr>events := events w @ [Warnf fmt args]\<rparr>"

definition event_DeployInfoEvent :: "error \<Rightarrow> world \<Rightarrow> world" where
  "event_DeployInfoEvent e w = w\<lparr>events := events w @ [DeployInfoEvent e]\<rparr>"

section \<open>The operations\<close>

text \<open>
  \<^verbatim>\<open>TrackBuildArtifacts\<close> hands the artifacts to the pod selector and then to the logger.
\<close>

definition TrackBuildArtifacts :: "Deployer \<Rightarrow> Artifact list \<Rightarrow> world \<Rightarrow> world" where
  "TrackBuildArtifacts k artifacts w =
     w\<lparr>events := events w @ [AddTagsToPodSelector artifacts, RegisterArtifacts artifacts]\<rparr>"

text \<open>
  The loop of \<^verbatim>\<open>getManifests\<close> over \<^verbatim>\<open>rl.Items\<close>: every item is printed and appended to
  the buffer; the first item that fails to print ends the loop with its error.
\<close>

fun appendItems :: "('r \<Rightarrow> error + string) \<Rightarrow> 'r list \<Rightarrow> string \<Rightarrow> error + string" where
  "appendItems str [] newBuf = Inr newBuf"
| "appendItems str (item # items) newBuf =
     (case str item of
        Inl err \<Rightarrow> Inl err
      | Inr s \<Rightarrow> appendItems str items (newBuf @ s))"

definition getManifests :: "'r env \<Rightarrow> Deployer \<Rightarrow> world \<Rightarrow> (ManifestList \<times> error option) \<times> world" where
  "getManifests env k w =
     (case RunCmdOut env [''kpt'', ''fn'', ''source'', applyDir k] w of
        ((buf, Some err), w) \<Rightarrow> ((None, Some (sourceErr err (applyDir k))), w)
      | ((buf, None), w) \<Rightarrow>
          (case resourceList_Read env buf of
             Inl err \<Rightarrow> ((None, Some (sourceErr err (applyDir k))), w)
           | Inr items \<Rightarrow>
               (case appendItems (rnode_String env) items [] of
                  Inl err \<Rightarrow> ((None, Some (sourceErr err (applyDir k))), w)
                | Inr newBuf \<Rightarrow>
                    (let manifests = Some [];
                         manifests = (if length buf > 0
                                      then manifestList_Append env manifests newBuf
                                      else manifests)
                     in ((manifests, None), w)))))"

text \<open>
  The argument list that \<^verbatim>\<open>kptfileInitIfNot\<close> builds for \<^verbatim>\<open>kpt live init\<close> when the
  Kptfile has no inventory.
\<close>

definition liveInitArgs :: "Deployer \<Rightarrow> string list" where
  "liveInitArgs k =
     (let args = [''live'', ''init'', applyDir k];
          args = args @ Flags (KptV2Deploy k);
          args = (if KptV2Deploy.Name (KptV2Deploy k) \<noteq> ''''
                  then args @ [''--name'', KptV2Deploy.Name (KptV2Deploy k)] else args);
          args = (if KptV2Deploy.InventoryID (KptV2Deploy k) \<noteq> ''''
                  then args @ [''--inventory-id'', KptV2Deploy.InventoryID (KptV2Deploy k)] else args);
          args = (if namespace k \<noteq> '''' then args @ [''--namespace'', namespace k]
                  else if InventoryNamespace (KptV2Deploy k) \<noteq> ''''
                  then args @ [''--namespace'', InventoryNamespace (KptV2Deploy k)] else args);
          args = (if Force (KptV2Deploy k) then args @ [''--force'', ''true''] else args)
      in args)"

text \<open>
  The branch of \<^verbatim>\<open>kptfileInitIfNot\<close> taken when the decoded Kptfile has an inventory
  \<open>inventory\<close>: the comparisons and assignments before the file is marshalled. It returns the
  deployer and the inventory as the assignments leave them, and the world with the
  warnings logged.
\<close>

definition mergeInventory :: "Deployer \<Rightarrow> Inventory \<Rightarrow> world \<Rightarrow> Deployer \<times> Inventory \<times> world" where
  "mergeInventory k inventory w =
     (let (inventory, w) =
            (if KptV2Deploy.InventoryID (KptV2Deploy k) \<noteq> ''''
                \<and> KptV2Deploy.InventoryID (KptV2Deploy k) \<noteq> Inventory.InventoryID inventory
             then (inventory\<lparr>Inventory.InventoryID := KptV2Deploy.InventoryID (KptV2Deploy k)\<rparr>,
                   logrus_Warnf ''Updating Kptfile inventory from %v to %v''
                     [Inventory.InventoryID inventory, KptV2Deploy.InventoryID (KptV2Deploy k)] w)
             else (inventory, w));
          (inventory, w) =
            (if KptV2Deploy.Name (KptV2Deploy k) \<noteq> ''''
                \<and> KptV2Deploy.Name (KptV2Deploy k) \<noteq> Inventory.Name inventory
             then (inventory\<lparr>Inventory.Name := KptV2Deploy.Name (KptV2Deploy k)\<rparr>,
                   logrus_Warnf ''Updating Kptfile name from %v to %v''
                     [Inventory.Name inventory, KptV2Deploy.Name (KptV2Deploy k)] w)
             else (inventory, w));
          k = (if namespace k = '''' then k\<lparr>namespace := defaultNs\<rparr> else k);
          k = (if InventoryNamespace (KptV2Deploy k) = ''''
               then k\<lparr>KptV2Deploy := (KptV2Deploy k)\<lparr>InventoryNamespace := defaultNs\<rparr>\<rparr> else k);
          (inventory, w) =
            (if namespace k \<noteq> Namespace inventory
             then (inventory\<lparr>Namespace := namespace k\<rparr>,
                   logrus_Warnf ''Updating Kptfile namespace from %v to %v''
                     [Namespace inventory, namespace k] w)
             else if InventoryNamespace (KptV2Deploy k) \<noteq> Namespace inventory
             then (inventory\<lparr>Namespace := InventoryNamespace (KptV2Deploy k)\<rparr>,
                   logrus_Warnf ''Updating Kptfile namespace from %v to %v''
                     [Namespace inventory, InventoryNamespace (KptV2Deploy k)] w)
             else (inventory, w))
      in (k, inventory, w))"

text \<open>The local \<^verbatim>\<open>kptFilePath\<close> of \<^verbatim>\<open>kptfileInitIfNot\<close>.\<close>

definition kptFilePath_of :: "'r env \<Rightarrow> Deployer \<Rightarrow> string" where
  "kptFilePath_of env k = filepath_Join env (applyDir k) KptFileName"

text \<open>
  \<^verbatim>\<open>kptfileInitIfNot\<close>: the result is the returned error (or the panic), the deployer
  as the call leaves it and the world as the call leaves it. When the decoder has left
  \<^verbatim>\<open>kfConfig\<close> nil, the test \<^verbatim>\<open>kfConfig.Inventory == nil\<close> dereferences a nil pointer and
  the function panics.
\<close>

definition kptfileInitIfNot ::
  "'r env \<Rightarrow> Deployer \<Rightarrow> world \<Rightarrow> error option outcome \<times> Deployer \<times> world" where
  "kptfileInitIfNot env k w =
     (let kptFilePath = kptFilePath_of env k;
          (initErr, w) =
            (if os_Stat_IsNotExist (fs w) kptFilePath
             then RunCmd env [''kpt'', ''pkg'', ''init'', applyDir k] w
             else (None, w))
      in case initErr of
           Some err \<Rightarrow> (Returns (Some (pkgInitErr err (applyDir k))), k, w)
         | None \<Rightarrow>
          (case openFile (fs w) kptFilePath of
             Inl err \<Rightarrow> (Returns (Some (openFileErr err kptFilePath)), k, w)
           | Inr file \<Rightarrow>
              (case decode env file of
                 Inl err \<Rightarrow> (Returns (Some (parseFileErr err kptFilePath)), k, w)
               | Inr None \<Rightarrow>
                  (Panics ''runtime error: invalid memory address or nil pointer dereference'', k, w)
               | Inr (Some kfConfig) \<Rightarrow>
                  (case Inventory kfConfig of
                     None \<Rightarrow>
                       (case RunCmd env (''kpt'' # liveInitArgs k) w of
                          (Some err, w) \<Rightarrow> (Returns (Some (liveInitErr err (applyDir k))), k, w)
                        | (None, w) \<Rightarrow> (Returns None, k, w))
                   | Some inventory \<Rightarrow>
                       (let (k, inventory, w) = mergeInventory k inventory w;
                            kfConfig = kfConfig\<lparr>Inventory := Some inventory\<rparr>
                        in case marshal env kfConfig of
                             Inl err \<Rightarrow> (Returns (Some err), k, w)
                           | Inr configByte \<Rightarrow>
                               (case ioutil_WriteFile kptFilePath configByte w of
                                  (Some err, w) \<Rightarrow> (Returns (Some err), k, w)
                                | (None, w) \<Rightarrow> (Returns None, k, w)))))))"

text \<open>
  \<^verbatim>\<open>Deploy\<close>, with the package variable \<^verbatim>\<open>kptInitFunc\<close> at its initial value
  \<^verbatim>\<open>kptfileInitIfNot\<close>. \<open>Deploy_collect\<close> is the part that reads the hydrated manifests
  and collects their namespaces; \<open>Deploy_apply\<close> is the part that runs
  \<^verbatim>\<open>kpt live apply\<close>.
\<close>

definition Deploy_collect :: "'r env \<Rightarrow> Deployer \<Rightarrow> world \<Rightarrow> string list option \<times> world" where
  "Deploy_collect env k w =
     (let ((manifests, err), w) = getManifests env k w;
          w = (case err of
                 Some e \<Rightarrow> event_DeployInfoEvent
                   (Errorf ''could not read the hydrated manifest from %v: %w'' [applyDir k] e) w
               | None \<Rightarrow> w);
          (namespaces, err) = CollectNamespaces env manifests;
          w = (case err of
                 Some e \<Rightarrow> event_DeployInfoEvent
                   (Errorf (''could not fetch deployed resource namespace. ''
                      @ ''This might cause port-forward and deploy health-check to fail: %w'') [] e) w
               | None \<Rightarrow> w)
      in (namespaces, w))"

definition applyArgs :: "Deployer \<Rightarrow> string list" where
  "applyArgs k =
     (let args = [''live'', ''apply'', applyDir k];
          args = args @ Flags (KptV2Deploy k);
          args = args @ ApplyFlags (KptV2Deploy k)
      in args)"

definition Deploy_apply ::
  "'r env \<Rightarrow> Deployer \<Rightarrow> Artifact list \<Rightarrow> string list option \<Rightarrow> world
    \<Rightarrow> (string list option \<times> error option) outcome \<times> Deployer \<times> world" where
  "Deploy_apply env k builds namespaces w =
     (case RunCmd env (''kpt'' # applyArgs k) w of
        (Some err, w) \<Rightarrow> (Returns (None, Some (liveApplyErr err (applyDir k))), k, w)
      | (None, w) \<Rightarrow> (Returns (namespaces, None), k, TrackBuildArtifacts k builds w))"

definition Deploy ::
  "'r env \<Rightarrow> Deployer \<Rightarrow> Artifact list \<Rightarrow> world
    \<Rightarrow> (string list option \<times> error option) outcome \<times> Deployer \<times> world" where
  "Deploy env k builds w =
     (case kptfileInitIfNot env k w of
        (Panics msg, k, w) \<Rightarrow> (Panics msg, k, w)
      | (Returns (Some err), k, w) \<Rightarrow> (Returns (None, Some err), k, w)
      | (Returns None, k, w) \<Rightarrow>
          (let (namespaces, w) = Deploy_collect env k w
           in Deploy_apply env k builds namespaces w))"

section \<open>Observations on the event log\<close>

fun isWriteFile :: "event \<Rightarrow> bool" where
  "isWriteFile (WriteFile p b) = True"
| "isWriteFile _ = False"

fun isWarnf :: "event \<Rightarrow> bool" where
  "isWarnf (Warnf fmt args) = True"
| "isWarnf _ = False"

fun isDeployInfoEvent :: "event \<Rightarrow> bool" where
  "isDeployInfoEvent (DeployInfoEvent e) = True"
| "isDeployInfoEvent _ = False"

text \<open>The events that only \<^verbatim>\<open>TrackBuildArtifacts\<close> produces.\<close>

fun isTrackBuildArtifacts :: "event \<Rightarrow> bool" where
  "isTrackBuildArtifacts (AddTagsToPodSelector a) = True"
| "isTrackBuildArtifacts (RegisterArtifacts a) = True"
| "isTrackBuildArtifacts _ = False"

text \<open>The external initializers: \<^verbatim>\<open>kpt pkg init\<close> and \<^verbatim>\<open>kpt live init\<close>.\<close>

fun isPkgInit :: "event \<Rightarrow> bool" where
  "isPkgInit (Exec (c # a # b # rest)) = (c = ''kpt'' \<and> a = ''pkg'' \<and> b = ''init'')"
| "isPkgInit _ = False"

fun isLiveInit :: "event \<Rightarrow> bool" where
  "isLiveInit (Exec (c # a # b # rest)) = (c = ''kpt'' \<and> a = ''live'' \<and> b = ''init'')"
| "isLiveInit _ = False"

fun isLiveApply :: "event \<Rightarrow> bool" where
  "isLiveApply (Exec (c # a # b # rest)) = (c = ''kpt'' \<and> a = ''live'' \<and> b = ''apply'')"
| "isLiveApply _ = False"

text \<open>
  The state file of a deployer has an inventory block in a file system: it can be
  opened, it decodes to a Kptfile, and the decoded \<open>Inventory\<close> is not nil.
\<close>

definition hasInventory :: "'r env \<Rightarrow> filesystem \<Rightarrow> string \<Rightarrow> bool" where
  "hasInventory env f p =
     (case openFile f p of
        Inl err \<Rightarrow> False
      | Inr file \<Rightarrow>
          (case decode env file of
             Inl err \<Rightarrow> False
           | Inr None \<Rightarrow> False
           | Inr (Some kfConfig) \<Rightarrow> Inventory kfConfig \<noteq> None))"

section \<open>The reconciler, step by step\<close>

text \<open>
  For reasoning, the body of \<^verbatim>\<open>kptfileInitIfNot\<close> from the call of \<^verbatim>\<open>openFile\<close> to the
  end is named on its own; \<open>kptfileInitIfNot_unfold\<close> below shows that the reconciler
  is the optional \<^verbatim>\<open>kpt pkg init\<close> followed by it.
\<close>

definition afterPkgInit ::
  "'r env \<Rightarrow> Deployer \<Rightarrow> world \<Rightarrow> error option outcome \<times> Deployer \<times> world" where
  "afterPkgInit env k w =
     (case openFile (fs w) (kptFilePath_of env k) of
        Inl err \<Rightarrow> (Returns (Some (openFileErr err (kptFilePath_of env k))), k, w)
      | Inr file \<Rightarrow>
         (case decode env file of
            Inl err \<Rightarrow> (Returns (Some (parseFileErr err (kptFilePath_of env k))), k, w)
          | Inr None \<Rightarrow>
             (Panics ''runtime error: invalid memory address or nil pointer dereference'', k, w)
          | Inr (Some kfConfig) \<Rightarrow>
             (case Inventory kfConfig of
                None \<Rightarrow>
                  (case RunCmd env (''kpt'' # liveInitArgs k) w of
                     (r, w1) \<Rightarrow> (Returns (map_option (\<lambda>err. liveInitErr err (applyDir k)) r), k, w1))
              | Some i \<Rightarrow>
                  (case mergeInventory k i w of (k', i', w1) \<Rightarrow>
                    (case marshal env (kfConfig\<lparr>Inventory := Some i'\<rparr>) of
                       Inl err \<Rightarrow> (Returns (Some err), k', w1)
                     | Inr b \<Rightarrow> (case ioutil_WriteFile (kptFilePath_of env k) b w1 of
                                  (r, w2) \<Rightarrow> (Returns r, k', w2)))))))"

section \<open>A test double for the collaborators\<close>

text \<open>
  In the manner of the package's tests, the collaborators are replaced by tables: \<open>yaml\<close>
  lists the byte strings that decode and the struct each decodes to (marshalling is the
  table read backwards), \<open>cmds\<close> lists the command lines that are known, each with its
  result and the files it leaves behind. An unknown command line fails. The bytes
  \<open>null\<close>, a null YAML document, decode without error to a nil pointer. Nothing is
  rendered and no namespace is collected.
\<close>

definition testEnv ::
  "(string \<times> KptFile) list \<Rightarrow> (string list \<times> error option \<times> (string \<times> osfile) list) list \<Rightarrow> unit env" where
  "testEnv yaml cmds =
     \<lparr> runCmd = (\<lambda>cmd f. case map_of cmds cmd of
                   None \<Rightarrow> (Some (Err ''exit status 1''), f)
                 | Some (r, files) \<Rightarrow> (r, f ++ map_of files)),
       runCmdOut = (\<lambda>cmd f. case map_of cmds cmd of
                   None \<Rightarrow> (('''', Some (Err ''exit status 1'')), f)
                 | Some (r, files) \<Rightarrow> (('''', r), f ++ map_of files)),
       decode = (\<lambda>b. if b = ''null'' then Inr None
                 else case map_of yaml b of
                   None \<Rightarrow> Inl (Err ''yaml: cannot unmarshal'')
                 | Some kf \<Rightarrow> Inr (Some kf)),
       marshal = (\<lambda>kf. case map_of (map (\<lambda>(b, x). (x, b)) yaml) kf of
                   None \<Rightarrow> Inl (Err ''yaml: cannot marshal'')
                 | Some b \<Rightarrow> Inr b),
       resourceList_Read = (\<lambda>b. Inr []),
       rnode_String = (\<lambda>r. Inr []),
       manifestList_Append = (\<lambda>m b. map_option (\<lambda>l. l @ [b]) m),
       CollectNamespaces = (\<lambda>m. (Some [], None)),
       filepath_Join = (\<lambda>d n. d @ ''/'' @ n) \<rparr>"

definition testDeployer :: "string \<Rightarrow> string \<Rightarrow> string \<Rightarrow> string \<Rightarrow> Deployer" where
  "testDeployer name inventoryID ns inventoryNs =
     \<lparr> KptV2Deploy = \<lparr> Dir = ''app'', ApplyFlags = [], Flags = [], Name = name,
                       InventoryID = inventoryID, InventoryNamespace = inventoryNs,
                       Force = False \<rparr>,
       applyDir = ''app'', namespace = ns \<rparr>"

definition kfBare :: KptFile where
  "kfBare = \<lparr> Inventory = None \<rparr>"

definition kfInv :: "string \<Rightarrow> string \<Rightarrow> string \<Rightarrow> KptFile" where
  "kfInv ns name inventoryID =
     \<lparr> Inventory = Some \<lparr> Namespace = ns, Name = name, InventoryID = inventoryID \<rparr> \<rparr>"

definition testWorld :: "(string \<times> osfile) list \<Rightarrow> world" where
  "testWorld files = \<lparr> fs = map_of files, events = [] \<rparr>"

text \<open>
  The table used in the examples: a bare Kptfile as \<^verbatim>\<open>kpt pkg init\<close> leaves it, and
  Kptfiles with an inventory, each under a name that spells its inventory ID, name and
  namespace. \<^verbatim>\<open>kpt pkg init\<close> creates the bare file; \<^verbatim>\<open>kpt live init\<close> for \<open>app1\<close> stores
  an inventory in the namespace \<open>team-a\<close> of the current context; \<^verbatim>\<open>kpt live apply\<close>
  succeeds; \<^verbatim>\<open>kpt fn source\<close> is not in the table and fails.
\<close>

definition testYaml :: "(string \<times> KptFile) list" where
  "testYaml =
     [(''bare'', kfBare),
      (''x/app1/default'', kfInv ''default'' ''app1'' ''x''),
      (''x/old/default'', kfInv ''default'' ''old'' ''x''),
      (''x/new/default'', kfInv ''default'' ''new'' ''x''),
      (''x/old/ns-a'', kfInv ''ns-a'' ''old'' ''x''),
      (''x/old/ns-b'', kfInv ''ns-b'' ''old'' ''x''),
      (''x/old/'', kfInv [] ''old'' ''x''),
      (''id1/app1/team-a'', kfInv ''team-a'' ''app1'' ''id1'')]"

definition testCmds :: "(string list \<times> error option \<times> (string \<times> osfile) list) list" where
  "testCmds =
     [([''kpt'', ''pkg'', ''init'', ''app''], None,
         [(''app/Kptfile'', File True True ''bare'')]),
      ([''kpt'', ''live'', ''init'', ''app'', ''--name'', ''app1''], None,
         [(''app/Kptfile'', File True True ''id1/app1/team-a'')]),
      ([''kpt'', ''live'', ''apply'', ''app''], None, [])]"

definition testEnv0 :: "unit env" where
  "testEnv0 = testEnv testYaml testCmds"

text \<open>The same collaborators, except that every command fails.\<close>

definition testEnvFailing :: "unit env" where
  "testEnvFailing = testEnv testYaml []"

text \<open>A world whose only file is a readable and writable Kptfile with the given bytes.\<close>

definition kptfileWorld :: "string \<Rightarrow> world" where
  "kptfileWorld b = testWorld [(''app/Kptfile'', File True True b)]"

text \<open>
  Collaborators whose \<^verbatim>\<open>kpt live init\<close> reports success and leaves the Kptfile as it
  found it.
\<close>

definition testEnvSilentInit :: "unit env" where
  "testEnvSilentInit = testEnv testYaml
     [([''kpt'', ''live'', ''init'', ''app'', ''--name'', ''app1''], None, []),
      ([''kpt'', ''live'', ''apply'', ''app''], None, [])]"

section \<open>Basic facts\<close>

lemma RunCmd_eq:
  "RunCmd env c w =
     (fst (runCmd env c (fs w)),
      w\<lparr>fs := snd (runCmd env c (fs w)), events := events w @ [Exec c]\<rparr>)"
  by (simp add: RunCmd_def split: prod.splits)

lemma RunCmdOut_eq:
  "RunCmdOut env c w =
     (fst (runCmdOut env c (fs w)),
      w\<lparr>fs := snd (runCmdOut env c (fs w)), events := events w @ [Exec c]\<rparr>)"
  by (simp add: RunCmdOut_def split: prod.splits)

lemma liveInitArgs_eq:
  "liveInitArgs k =
     [''live'', ''init'', applyDir k] @ Flags (KptV2Deploy k)
     @ (if KptV2Deploy.Name (KptV2Deploy k) \<noteq> [] then [''--name'', KptV2Deploy.Name (KptV2Deploy k)] else [])
     @ (if KptV2Deploy.InventoryID (KptV2Deploy k) \<noteq> []
        then [''--inventory-id'', KptV2Deploy.InventoryID (KptV2Deploy k)] else [])
     @ (if namespace k \<noteq> [] then [''--namespace'', namespace k]
        else if InventoryNamespace (KptV2Deploy k) \<noteq> []
        then [''--namespace'', InventoryNamespace (KptV2Deploy k)] else [])
     @ (if Force (KptV2Deploy k) then [''--force'', ''true''] else [])"
  by (simp add: liveInitArgs_def Let_def)

lemma isLiveInit_liveInitArgs: "isLiveInit (Exec (''kpt'' # liveInitArgs k))"
  by (simp add: liveInitArgs_eq)

lemma applyArgs_eq:
  "applyArgs k = [''live'', ''apply'', applyDir k] @ Flags (KptV2Deploy k) @ ApplyFlags (KptV2Deploy k)"
  by (simp add: applyArgs_def Let_def)

text \<open>What the merge branch computes, written out field by field.\<close>

lemma mergeInventory_eq:
  "mergeInventory k i w =
     (k\<lparr>namespace := (if namespace k = [] then defaultNs else namespace k),
        KptV2Deploy := (KptV2Deploy k)\<lparr>InventoryNamespace :=
           (if InventoryNamespace (KptV2Deploy k) = [] then defaultNs else InventoryNamespace (KptV2Deploy k))\<rparr>\<rparr>,
      \<lparr>Namespace =
         (if (if namespace k = [] then defaultNs else namespace k) \<noteq> Namespace i
          then (if namespace k = [] then defaultNs else namespace k)
          else (if InventoryNamespace (KptV2Deploy k) = [] then defaultNs else InventoryNamespace (KptV2Deploy k))),
       Name =
         (if KptV2Deploy.Name (KptV2Deploy k) \<noteq> [] then KptV2Deploy.Name (KptV2Deploy k) else Inventory.Name i),
       InventoryID =
         (if KptV2Deploy.InventoryID (KptV2Deploy k) \<noteq> [] then KptV2Deploy.InventoryID (KptV2Deploy k)
          else Inventory.InventoryID i)\<rparr>,
      w\<lparr>events := events w
         @ (if KptV2Deploy.InventoryID (KptV2Deploy k) \<noteq> [] \<and> KptV2Deploy.InventoryID (KptV2Deploy k) \<noteq> Inventory.InventoryID i
            then [Warnf ''Updating Kptfile inventory from %v to %v'' [Inventory.InventoryID i, KptV2Deploy.InventoryID (KptV2Deploy k)]] else [])
         @ (if KptV2Deploy.Name (KptV2Deploy k) \<noteq> [] \<and> KptV2Deploy.Name (KptV2Deploy k) \<noteq> Inventory.Name i
            then [Warnf ''Updating Kptfile name from %v to %v'' [Inventory.Name i, KptV2Deploy.Name (KptV2Deploy k)]] else [])
         @ (if (if namespace k = [] then defaultNs else namespace k) \<noteq> Namespace i
            then [Warnf ''Updating Kptfile namespace from %v to %v'' [Namespace i, (if namespace k = [] then defaultNs else namespace k)]]
            else if (if InventoryNamespace (KptV2Deploy k) = [] then defaultNs else InventoryNamespace (KptV2Deploy k)) \<noteq> Namespace i
            then [Warnf ''Updating Kptfile namespace from %v to %v'' [Namespace i, (if InventoryNamespace (KptV2Deploy k) = [] then defaultNs else InventoryNamespace (KptV2Deploy k))]]
            else [])\<rparr>)"
  by (cases i; cases k; cases w) (simp add: mergeInventory_def logrus_Warnf_def Let_def)

lemma kptfileInitIfNot_unfold:
  "kptfileInitIfNot env k w =
     (if fs w (kptFilePath_of env k) = None
      then (case RunCmd env [''kpt'', ''pkg'', ''init'', applyDir k] w of
              (Some err, w1) \<Rightarrow> (Returns (Some (pkgInitErr err (applyDir k))), k, w1)
            | (None, w1) \<Rightarrow> afterPkgInit env k w1)
      else afterPkgInit env k w)"
  by (simp add: kptfileInitIfNot_def afterPkgInit_def os_Stat_IsNotExist_def Let_def
      split: prod.splits sum.splits option.splits)

lemma afterPkgInit_merge:
  assumes "fs w (kptFilePath_of env k) = Some f" and "readable f"
    and "decode env (contents f) = Inr (Some kf)" and "Inventory kf = Some i"
  shows "afterPkgInit env k w =
     (case mergeInventory k i w of (k', i', w1) \<Rightarrow>
        (case marshal env (kf\<lparr>Inventory := Some i'\<rparr>) of
           Inl err \<Rightarrow> (Returns (Some err), k', w1)
         | Inr b \<Rightarrow> (case ioutil_WriteFile (kptFilePath_of env k) b w1 of (r, w2) \<Rightarrow> (Returns r, k', w2))))"
  using assms by (simp add: afterPkgInit_def openFile_def)

lemma afterPkgInit_liveInit:
  assumes "fs w (kptFilePath_of env k) = Some f" and "readable f"
    and "decode env (contents f) = Inr (Some kf)" and "Inventory kf = None"
  shows "afterPkgInit env k w =
     (Returns (map_option (\<lambda>err. liveInitErr err (applyDir k))
        (fst (runCmd env (''kpt'' # liveInitArgs k) (fs w)))),
      k,
      w\<lparr>fs := snd (runCmd env (''kpt'' # liveInitArgs k) (fs w)),
        events := events w @ [Exec (''kpt'' # liveInitArgs k)]\<rparr>)"
  using assms by (simp add: afterPkgInit_def openFile_def RunCmd_eq)

lemma ioutil_WriteFile_events:
  "events (snd (ioutil_WriteFile p b w)) = events w @ [WriteFile p b]"
  by (simp add: ioutil_WriteFile_def Let_def split: option.splits)

text \<open>The merge branch logs warnings and then writes at most once; it runs no command.\<close>

lemma mergeInventory_events:
  "\<exists>ws. events (snd (snd (mergeInventory k i w))) = events w @ ws \<and> (\<forall>e\<in>set ws. isWarnf e)"
  by (auto simp: mergeInventory_eq)

lemma afterPkgInit_merge_events:
  assumes "fs w (kptFilePath_of env k) = Some f" and "readable f"
    and "decode env (contents f) = Inr (Some kf)" and "Inventory kf = Some i"
  shows "\<exists>evs. events (snd (snd (afterPkgInit env k w))) = events w @ evs
           \<and> (\<forall>e\<in>set evs. isWarnf e \<or> isWriteFile e)"
proof -
  obtain k' i' w1 where m: "mergeInventory k i w = (k', i', w1)"
    by (cases "mergeInventory k i w") auto
  from mergeInventory_events [of k i w] m obtain ws
    where ws: "events w1 = events w @ ws" "\<forall>e\<in>set ws. isWarnf e"
    by auto
  show ?thesis
  proof (cases "marshal env (kf\<lparr>Inventory := Some i'\<rparr>)")
    case (Inl err)
    with assms m ws show ?thesis
      by (simp add: afterPkgInit_merge)
  next
    case (Inr b)
    have "events (snd (ioutil_WriteFile (kptFilePath_of env k) b w1))
            = events w @ (ws @ [WriteFile (kptFilePath_of env k) b])"
      by (simp add: ioutil_WriteFile_events ws)
    moreover have "\<forall>e\<in>set (ws @ [WriteFile (kptFilePath_of env k) b]). isWarnf e \<or> isWriteFile e"
      using ws by auto
    ultimately show ?thesis
      using assms m Inr by (auto simp: afterPkgInit_merge split: prod.splits)
  qed
qed

lemma mergeInventory_fs: "mergeInventory k i w = (k', i', w1) \<Longrightarrow> fs w1 = fs w"
  by (auto simp: mergeInventory_eq)

text \<open>A run through the merge branch, given what the merge computed.\<close>

lemma kptfileInitIfNot_merge:
  assumes "fs w (kptFilePath_of env k) = Some f" and "readable f"
    and "decode env (contents f) = Inr (Some kf)" and "Inventory kf = Some i"
    and "mergeInventory k i w = (k', i', w1)"
  shows "kptfileInitIfNot env k w =
     (case marshal env (kf\<lparr>Inventory := Some i'\<rparr>) of
        Inl err \<Rightarrow> (Returns (Some err), k', w1)
      | Inr b \<Rightarrow>
          (if writable f
           then (Returns None, k', w1\<lparr>fs := (fs w)(kptFilePath_of env k \<mapsto> File True True b),
                             events := events w1 @ [WriteFile (kptFilePath_of env k) b]\<rparr>)
           else (Returns (Some (Err ''permission denied'')), k',
                 w1\<lparr>events := events w1 @ [WriteFile (kptFilePath_of env k) b]\<rparr>)))"
proof -
  have f1: "fs w1 = fs w"
    using assms(5) by (rule mergeInventory_fs)
  have "kptfileInitIfNot env k w = afterPkgInit env k w"
    using assms(1) by (simp add: kptfileInitIfNot_unfold)
  also have "\<dots> = (case marshal env (kf\<lparr>Inventory := Some i'\<rparr>) of
           Inl err \<Rightarrow> (Returns (Some err), k', w1)
         | Inr b \<Rightarrow> (case ioutil_WriteFile (kptFilePath_of env k) b w1 of (r, w2) \<Rightarrow> (Returns r, k', w2)))"
    using assms by (simp add: afterPkgInit_merge)
  also have "\<dots> = (case marshal env (kf\<lparr>Inventory := Some i'\<rparr>) of
        Inl err \<Rightarrow> (Returns (Some err), k', w1)
      | Inr b \<Rightarrow>
          (if writable f
           then (Returns None, k', w1\<lparr>fs := (fs w)(kptFilePath_of env k \<mapsto> File True True b),
                             events := events w1 @ [WriteFile (kptFilePath_of env k) b]\<rparr>)
           else (Returns (Some (Err ''permission denied'')), k',
                 w1\<lparr>events := events w1 @ [WriteFile (kptFilePath_of env k) b]\<rparr>)))"
    using assms(1,2) f1 by (simp add: ioutil_WriteFile_def Let_def split: sum.splits)
  finally show ?thesis .
qed

text \<open>The deployer that a run of the reconciler leaves behind.\<close>

lemma mergeInventory_deployer:
  "fst (mergeInventory k i w) =
     k\<lparr>namespace := (if namespace k = [] then ''default'' else namespace k),
       KptV2Deploy := (KptV2Deploy k)\<lparr>InventoryNamespace :=
         (if InventoryNamespace (KptV2Deploy k) = [] then ''default''
          else InventoryNamespace (KptV2Deploy k))\<rparr>\<rparr>"
  by (simp add: mergeInventory_eq defaultNs_def)

lemma mergeInventory_deployer_stable:
  assumes "namespace k \<noteq> []" and "InventoryNamespace (KptV2Deploy k) \<noteq> []"
  shows "fst (mergeInventory k i w) = k"
  using assms by (simp add: mergeInventory_deployer)

lemma mergeInventory_deployer':
  "mergeInventory k i w = (k', i', w1) \<Longrightarrow> k' =
     k\<lparr>namespace := (if namespace k = [] then ''default'' else namespace k),
       KptV2Deploy := (KptV2Deploy k)\<lparr>InventoryNamespace :=
         (if InventoryNamespace (KptV2Deploy k) = [] then ''default''
          else InventoryNamespace (KptV2Deploy k))\<rparr>\<rparr>"
  using mergeInventory_deployer [of k i w] by simp

lemma afterPkgInit_deployer:
  "fst (snd (afterPkgInit env k w)) = k
   \<or> fst (snd (afterPkgInit env k w)) =
     k\<lparr>namespace := (if namespace k = [] then ''default'' else namespace k),
       KptV2Deploy := (KptV2Deploy k)\<lparr>InventoryNamespace :=
         (if InventoryNamespace (KptV2Deploy k) = [] then ''default''
          else InventoryNamespace (KptV2Deploy k))\<rparr>\<rparr>"
  by (auto simp: afterPkgInit_def dest!: mergeInventory_deployer'
      split: sum.splits option.splits prod.splits)

lemma kptfileInitIfNot_deployer:
  "fst (snd (kptfileInitIfNot env k w)) = k
   \<or> fst (snd (kptfileInitIfNot env k w)) =
     k\<lparr>namespace := (if namespace k = [] then ''default'' else namespace k),
       KptV2Deploy := (KptV2Deploy k)\<lparr>InventoryNamespace :=
         (if InventoryNamespace (KptV2Deploy k) = [] then ''default''
          else InventoryNamespace (KptV2Deploy k))\<rparr>\<rparr>"
proof (cases "fs w (kptFilePath_of env k) = None")
  case False
  then obtain f where "fs w (kptFilePath_of env k) = Some f"
    by auto
  then have "kptfileInitIfNot env k w = afterPkgInit env k w"
    by (simp add: kptfileInitIfNot_unfold)
  then show ?thesis
    using afterPkgInit_deployer [of env k w] by simp
next
  case True
  show ?thesis
  proof (cases "RunCmd env [''kpt'', ''pkg'', ''init'', applyDir k] w")
    case (Pair r w1)
    show ?thesis
    proof (cases r)
      case None
      with Pair True have "kptfileInitIfNot env k w = afterPkgInit env k w1"
        by (simp add: kptfileInitIfNot_unfold)
      then show ?thesis
        using afterPkgInit_deployer [of env k w1] by simp
    next
      case (Some err)
      with Pair True show ?thesis
        by (simp add: kptfileInitIfNot_unfold)
    qed
  qed
qed

lemma kptfileInitIfNot_deployer_stable:
  assumes "namespace k \<noteq> []" and "InventoryNamespace (KptV2Deploy k) \<noteq> []"
  shows "fst (snd (kptfileInitIfNot env k w)) = k"
  using kptfileInitIfNot_deployer [of env k w] assms by auto

lemma kptfileInitIfNot_applyDir: "applyDir (fst (snd (kptfileInitIfNot env k w))) = applyDir k"
  using kptfileInitIfNot_deployer [of env k w] by auto

lemma kptfileInitIfNot_Flags:
  "Flags (KptV2Deploy (fst (snd (kptfileInitIfNot env k w)))) = Flags (KptV2Deploy k)
   \<and> ApplyFlags (KptV2Deploy (fst (snd (kptfileInitIfNot env k w)))) = ApplyFlags (KptV2Deploy k)"
  using kptfileInitIfNot_deployer [of env k w] by auto

text \<open>The events and the file system of a whole run of the reconciler.\<close>

lemma afterPkgInit_events:
  "\<exists>evs. events (snd (snd (afterPkgInit env k w))) = events w @ evs
         \<and> (\<forall>e\<in>set evs. isLiveInit e \<or> isWarnf e \<or> isWriteFile e)"
proof (cases "openFile (fs w) (kptFilePath_of env k)")
  case (Inl err)
  then show ?thesis by (simp add: afterPkgInit_def)
next
  case (Inr bytes)
  then obtain f where f: "fs w (kptFilePath_of env k) = Some f" "readable f" "contents f = bytes"
    by (auto simp: openFile_def split: option.splits if_splits)
  show ?thesis
  proof (cases "decode env bytes")
    case (Inl err)
    with Inr show ?thesis by (simp add: afterPkgInit_def)
  next
    case dec: (Inr decoded)
    show ?thesis
    proof (cases decoded)
      case None
      with Inr dec show ?thesis by (simp add: afterPkgInit_def)
    next
      case kf: (Some kf)
      show ?thesis
      proof (cases "Inventory kf")
        case None
        with f dec kf show ?thesis
          by (simp add: afterPkgInit_liveInit isLiveInit_liveInitArgs)
      next
        case (Some i)
        with f dec kf afterPkgInit_merge_events [of w env k f kf i] show ?thesis
          by auto
      qed
    qed
  qed
qed

lemma kptfileInitIfNot_events:
  "\<exists>evs. events (snd (snd (kptfileInitIfNot env k w))) = events w @ evs
         \<and> (\<forall>e\<in>set evs. isPkgInit e \<or> isLiveInit e \<or> isWarnf e \<or> isWriteFile e)"
proof (cases "fs w (kptFilePath_of env k)")
  case (Some f)
  then have "kptfileInitIfNot env k w = afterPkgInit env k w"
    by (simp add: kptfileInitIfNot_unfold)
  with afterPkgInit_events [of env k w] show ?thesis
    by auto
next
  case None
  define w0 where "w0 = snd (RunCmd env [''kpt'', ''pkg'', ''init'', applyDir k] w)"
  have ev0: "events w0 = events w @ [Exec [''kpt'', ''pkg'', ''init'', applyDir k]]"
    by (simp add: w0_def RunCmd_eq)
  show ?thesis
  proof (cases "fst (RunCmd env [''kpt'', ''pkg'', ''init'', applyDir k] w)")
    case (Some err)
    with None ev0 show ?thesis
      by (auto simp: kptfileInitIfNot_unfold w0_def split: prod.splits)
  next
    case ok: None
    with None have eq: "kptfileInitIfNot env k w = afterPkgInit env k w0"
      by (auto simp: kptfileInitIfNot_unfold w0_def split: prod.splits)
    from afterPkgInit_events [of env k w0] obtain evs
      where evs: "events (snd (snd (afterPkgInit env k w0))) = events w0 @ evs"
        "\<forall>e\<in>set evs. isLiveInit e \<or> isWarnf e \<or> isWriteFile e"
      by blast
    have "events (snd (snd (kptfileInitIfNot env k w)))
            = events w @ (Exec [''kpt'', ''pkg'', ''init'', applyDir k] # evs)"
      by (simp add: eq evs(1) ev0)
    moreover have "\<forall>e\<in>set (Exec [''kpt'', ''pkg'', ''init'', applyDir k] # evs).
        isPkgInit e \<or> isLiveInit e \<or> isWarnf e \<or> isWriteFile e"
      using evs(2) by auto
    ultimately show ?thesis by blast
  qed
qed

lemma not_isLiveApply:
  "isPkgInit e \<or> isLiveInit e \<or> isWarnf e \<or> isWriteFile e \<or> isDeployInfoEvent e
     \<Longrightarrow> \<not> isLiveApply e"
  by (induction e rule: isLiveApply.induct) auto

lemma not_isTrackBuildArtifacts:
  "isPkgInit e \<or> isLiveInit e \<or> isWarnf e \<or> isWriteFile e \<or> isDeployInfoEvent e
     \<Longrightarrow> \<not> isTrackBuildArtifacts e"
  by (cases e) auto

text \<open>Reading the manifests and collecting the namespaces.\<close>

lemma getManifests_world:
  "snd (getManifests env k w) =
     w\<lparr>fs := snd (runCmdOut env [''kpt'', ''fn'', ''source'', applyDir k] (fs w)),
       events := events w @ [Exec [''kpt'', ''fn'', ''source'', applyDir k]]\<rparr>"
  by (simp add: getManifests_def RunCmdOut_eq Let_def split: prod.splits option.splits sum.splits)

lemma Deploy_collect_eq:
  "Deploy_collect env k w =
     (fst (CollectNamespaces env (fst (fst (getManifests env k w)))),
      w\<lparr>fs := snd (runCmdOut env [''kpt'', ''fn'', ''source'', applyDir k] (fs w)),
        events := events w @ [Exec [''kpt'', ''fn'', ''source'', applyDir k]]
          @ (case snd (fst (getManifests env k w)) of
               Some e \<Rightarrow> [DeployInfoEvent
                  (Errorf ''could not read the hydrated manifest from %v: %w'' [applyDir k] e)]
             | None \<Rightarrow> [])
          @ (case snd (CollectNamespaces env (fst (fst (getManifests env k w)))) of
               Some e \<Rightarrow> [DeployInfoEvent
                  (Errorf (''could not fetch deployed resource namespace. ''
                     @ ''This might cause port-forward and deploy health-check to fail: %w'') [] e)]
             | None \<Rightarrow> [])\<rparr>)"
proof -
  obtain m e w1 where g: "getManifests env k w = ((m, e), w1)"
    by (cases "getManifests env k w") auto
  with getManifests_world [of env k w] have w1: "w1 =
     w\<lparr>fs := snd (runCmdOut env [''kpt'', ''fn'', ''source'', applyDir k] (fs w)),
       events := events w @ [Exec [''kpt'', ''fn'', ''source'', applyDir k]]\<rparr>"
    by simp
  obtain nss ce where c: "CollectNamespaces env m = (nss, ce)"
    by (cases "CollectNamespaces env m") auto
  show ?thesis
    unfolding Deploy_collect_def g
    by (simp add: c w1 event_DeployInfoEvent_def split: option.splits)
qed

lemma Deploy_apply_eq:
  "Deploy_apply env k builds nss w =
     (case fst (runCmd env (''kpt'' # applyArgs k) (fs w)) of
        Some err \<Rightarrow>
          (Returns (None, Some (liveApplyErr err (applyDir k))), k,
           w\<lparr>fs := snd (runCmd env (''kpt'' # applyArgs k) (fs w)),
             events := events w @ [Exec (''kpt'' # applyArgs k)]\<rparr>)
      | None \<Rightarrow>
          (Returns (nss, None), k,
           w\<lparr>fs := snd (runCmd env (''kpt'' # applyArgs k) (fs w)),
             events := events w @ [Exec (''kpt'' # applyArgs k), AddTagsToPodSelector builds, RegisterArtifacts builds]\<rparr>))"
  by (simp add: Deploy_apply_def RunCmd_eq TrackBuildArtifacts_def split: option.splits)

lemma Deploy_eq:
  "Deploy env k builds w =
     (case kptfileInitIfNot env k w of
        (Panics msg, k1, w1) \<Rightarrow> (Panics msg, k1, w1)
      | (Returns (Some err), k1, w1) \<Rightarrow> (Returns (None, Some err), k1, w1)
      | (Returns None, k1, w1) \<Rightarrow>
          Deploy_apply env k1 builds (fst (Deploy_collect env k1 w1)) (snd (Deploy_collect env k1 w1)))"
  by (simp add: Deploy_def split: prod.splits option.splits outcome.splits)

text \<open>A run that starts without a state file and bootstraps both the file and the inventory.\<close>

lemma kptfileInitIfNot_bootstrap:
  assumes "fs w (kptFilePath_of env k) = None"
    and "runCmd env [''kpt'', ''pkg'', ''init'', applyDir k] (fs w) = (None, f1)"
    and "f1 (kptFilePath_of env k) = Some f" and "readable f"
    and "decode env (contents f) = Inr (Some kf)" and "Inventory kf = None"
  shows "kptfileInitIfNot env k w =
     (Returns (map_option (\<lambda>err. liveInitErr err (applyDir k))
        (fst (runCmd env (''kpt'' # liveInitArgs k) f1))),
      k,
      w\<lparr>fs := snd (runCmd env (''kpt'' # liveInitArgs k) f1),
        events := events w @ [Exec [''kpt'', ''pkg'', ''init'', applyDir k],
                              Exec (''kpt'' # liveInitArgs k)]\<rparr>)"
proof -
  define w0 where "w0 = w\<lparr>fs := f1, events := events w @ [Exec [''kpt'', ''pkg'', ''init'', applyDir k]]\<rparr>"
  have "kptfileInitIfNot env k w = afterPkgInit env k w0"
    using assms(1,2) by (simp add: kptfileInitIfNot_unfold RunCmd_eq w0_def)
  also have "\<dots> =
     (Returns (map_option (\<lambda>err. liveInitErr err (applyDir k))
        (fst (runCmd env (''kpt'' # liveInitArgs k) (fs w0)))),
      k,
      w0\<lparr>fs := snd (runCmd env (''kpt'' # liveInitArgs k) (fs w0)),
        events := events w0 @ [Exec (''kpt'' # liveInitArgs k)]\<rparr>)"
    by (rule afterPkgInit_liveInit [of w0 env k f kf]) (simp_all add: w0_def assms)
  finally show ?thesis
    by (simp add: w0_def)
qed

text \<open>
  When the reconciler returns no error, the state file has an inventory block, provided
  a successful \<^verbatim>\<open>kpt live init\<close> leaves one and a marshalled Kptfile decodes to itself.
\<close>

lemma afterPkgInit_hasInventory:
  assumes liveInit: "\<forall>f f'. runCmd env (''kpt'' # liveInitArgs k) f = (None, f')
                       \<longrightarrow> hasInventory env f' (kptFilePath_of env k)"
    and yaml: "\<forall>x b. marshal env x = Inr b \<longrightarrow> decode env b = Inr (Some x)"
    and ok: "fst (afterPkgInit env k w) = Returns None"
  shows "hasInventory env (fs (snd (snd (afterPkgInit env k w)))) (kptFilePath_of env k)"
proof (cases "openFile (fs w) (kptFilePath_of env k)")
  case (Inl err)
  with ok show ?thesis by (simp add: afterPkgInit_def)
next
  case (Inr bytes)
  then obtain f where f: "fs w (kptFilePath_of env k) = Some f" "readable f" "contents f = bytes"
    by (auto simp: openFile_def split: option.splits if_splits)
  show ?thesis
  proof (cases "decode env bytes")
    case (Inl err)
    with Inr ok show ?thesis by (simp add: afterPkgInit_def)
  next
    case dec0: (Inr decoded)
    show ?thesis
    proof (cases decoded)
    case nil: None
    with Inr dec0 ok show ?thesis by (simp add: afterPkgInit_def)
    next
    case kf: (Some kf)
    with dec0 have dec: "decode env bytes = Inr (Some kf)" by simp
    show ?thesis
    proof (cases "Inventory kf")
      case None
      have eq: "afterPkgInit env k w =
         (Returns (map_option (\<lambda>err. liveInitErr err (applyDir k))
            (fst (runCmd env (''kpt'' # liveInitArgs k) (fs w)))),
          k,
          w\<lparr>fs := snd (runCmd env (''kpt'' # liveInitArgs k) (fs w)),
            events := events w @ [Exec (''kpt'' # liveInitArgs k)]\<rparr>)"
        using f dec None by (simp add: afterPkgInit_liveInit)
      with ok have "fst (runCmd env (''kpt'' # liveInitArgs k) (fs w)) = None"
        by simp
      then have "runCmd env (''kpt'' # liveInitArgs k) (fs w)
                   = (None, snd (runCmd env (''kpt'' # liveInitArgs k) (fs w)))"
        by (simp add: prod_eq_iff)
      with liveInit have "hasInventory env (snd (runCmd env (''kpt'' # liveInitArgs k) (fs w)))
                            (kptFilePath_of env k)"
        by blast
      then show ?thesis by (simp add: eq)
    next
      case (Some i)
      obtain k' i' w1 where m: "mergeInventory k i w = (k', i', w1)"
        by (cases "mergeInventory k i w") auto
      have f1: "fs w1 = fs w"
        using m by (rule mergeInventory_fs)
      have eq: "afterPkgInit env k w =
          (case marshal env (kf\<lparr>Inventory := Some i'\<rparr>) of
             Inl err \<Rightarrow> (Returns (Some err), k', w1)
           | Inr b \<Rightarrow> (case ioutil_WriteFile (kptFilePath_of env k) b w1 of (r, w2) \<Rightarrow> (Returns r, k', w2)))"
        using f dec Some m by (simp add: afterPkgInit_merge)
      show ?thesis
      proof (cases "marshal env (kf\<lparr>Inventory := Some i'\<rparr>)")
        case (Inl err)
        with eq ok show ?thesis by simp
      next
        case mb: (Inr b)
        with yaml have d: "decode env b = Inr (Some (kf\<lparr>Inventory := Some i'\<rparr>))"
          by blast
        from eq mb ok f f1 have "writable f"
          by (auto simp: ioutil_WriteFile_def Let_def split: if_splits)
        with eq mb f f1 have "fs (snd (snd (afterPkgInit env k w))) (kptFilePath_of env k)
              = Some (File True True b)"
          by (simp add: ioutil_WriteFile_def Let_def)
        with d show ?thesis
          by (simp add: hasInventory_def openFile_def)
      qed
    qed
    qed
  qed
qed

lemma kptfileInitIfNot_hasInventory:
  assumes liveInit: "\<forall>f f'. runCmd env (''kpt'' # liveInitArgs k) f = (None, f')
                       \<longrightarrow> hasInventory env f' (kptFilePath_of env k)"
    and yaml: "\<forall>x b. marshal env x = Inr b \<longrightarrow> decode env b = Inr (Some x)"
    and ok: "fst (kptfileInitIfNot env k w) = Returns None"
  shows "hasInventory env (fs (snd (snd (kptfileInitIfNot env k w)))) (kptFilePath_of env k)"
proof (cases "fs w (kptFilePath_of env k)")
  case (Some f)
  then have "kptfileInitIfNot env k w = afterPkgInit env k w"
    by (simp add: kptfileInitIfNot_unfold)
  with afterPkgInit_hasInventory [OF liveInit yaml, of w] ok show ?thesis
    by simp
next
  case None
  obtain r w0 where run: "RunCmd env [''kpt'', ''pkg'', ''init'', applyDir k] w = (r, w0)"
    by (cases "RunCmd env [''kpt'', ''pkg'', ''init'', applyDir k] w") auto
  show ?thesis
  proof (cases r)
    case (Some err)
    with None run ok show ?thesis
      by (simp add: kptfileInitIfNot_unfold)
  next
    case r: None
    with None run have "kptfileInitIfNot env k w = afterPkgInit env k w0"
      by (simp add: kptfileInitIfNot_unfold)
    with afterPkgInit_hasInventory [OF liveInit yaml, of w0] ok show ?thesis
      by simp
  qed
qed

text \<open>
  The two ways in which the reconciler returns without an error: the merge branch has
  written a Kptfile with an inventory block, or \<^verbatim>\<open>kpt live init\<close> has reported success.
\<close>

lemma afterPkgInit_success:
  assumes ok: "fst (afterPkgInit env k w) = Returns None"
  shows "(\<exists>kf b. Inventory kf \<noteq> None \<and> marshal env kf = Inr b
            \<and> events (snd (snd (afterPkgInit env k w))) \<noteq> []
            \<and> last (events (snd (snd (afterPkgInit env k w)))) = WriteFile (kptFilePath_of env k) b
            \<and> fs (snd (snd (afterPkgInit env k w))) (kptFilePath_of env k) = Some (File True True b))
       \<or> (runCmd env (''kpt'' # liveInitArgs k) (fs w) = (None, fs (snd (snd (afterPkgInit env k w))))
            \<and> events (snd (snd (afterPkgInit env k w))) \<noteq> []
            \<and> last (events (snd (snd (afterPkgInit env k w)))) = Exec (''kpt'' # liveInitArgs k))"
proof (cases "openFile (fs w) (kptFilePath_of env k)")
  case (Inl err)
  with ok show ?thesis by (simp add: afterPkgInit_def)
next
  case (Inr bytes)
  then obtain f where f: "fs w (kptFilePath_of env k) = Some f" "readable f" "contents f = bytes"
    by (auto simp: openFile_def split: option.splits if_splits)
  show ?thesis
  proof (cases "decode env bytes")
    case (Inl err)
    with Inr ok show ?thesis by (simp add: afterPkgInit_def)
  next
    case dec0: (Inr decoded)
    show ?thesis
    proof (cases decoded)
      case nil: None
      with Inr dec0 ok show ?thesis by (simp add: afterPkgInit_def)
    next
      case kf: (Some kf)
      with dec0 f have dec: "decode env (contents f) = Inr (Some kf)" by simp
      show ?thesis
      proof (cases "Inventory kf")
        case None
        have eq: "afterPkgInit env k w =
           (Returns (map_option (\<lambda>err. liveInitErr err (applyDir k))
              (fst (runCmd env (''kpt'' # liveInitArgs k) (fs w)))),
            k,
            w\<lparr>fs := snd (runCmd env (''kpt'' # liveInitArgs k) (fs w)),
              events := events w @ [Exec (''kpt'' # liveInitArgs k)]\<rparr>)"
          using f dec None by (simp add: afterPkgInit_liveInit)
        with ok have "fst (runCmd env (''kpt'' # liveInitArgs k) (fs w)) = None"
          by simp
        then have "runCmd env (''kpt'' # liveInitArgs k) (fs w)
                     = (None, snd (runCmd env (''kpt'' # liveInitArgs k) (fs w)))"
          by (simp add: prod_eq_iff)
        then show ?thesis by (simp add: eq)
      next
        case (Some i)
        obtain k' i' w1 where m: "mergeInventory k i w = (k', i', w1)"
          by (cases "mergeInventory k i w") auto
        have eq: "afterPkgInit env k w =
           (case marshal env (kf\<lparr>Inventory := Some i'\<rparr>) of
              Inl err \<Rightarrow> (Returns (Some err), k', w1)
            | Inr b \<Rightarrow>
                (if writable f
                 then (Returns None, k', w1\<lparr>fs := (fs w)(kptFilePath_of env k \<mapsto> File True True b),
                                   events := events w1 @ [WriteFile (kptFilePath_of env k) b]\<rparr>)
                 else (Returns (Some (Err ''permission denied'')), k',
                       w1\<lparr>events := events w1 @ [WriteFile (kptFilePath_of env k) b]\<rparr>)))"
          using kptfileInitIfNot_merge [OF f(1,2) dec Some m] f(1)
          by (simp add: kptfileInitIfNot_unfold)
        show ?thesis
        proof (cases "marshal env (kf\<lparr>Inventory := Some i'\<rparr>)")
          case (Inl err)
          with eq ok show ?thesis by simp
        next
          case mb: (Inr b)
          with eq ok have wr: "writable f"
            by (auto split: if_splits)
          have "Inventory (kf\<lparr>Inventory := Some i'\<rparr>) \<noteq> None
                \<and> marshal env (kf\<lparr>Inventory := Some i'\<rparr>) = Inr b"
            using mb by simp
          then have "\<exists>x. Inventory x \<noteq> None \<and> marshal env x = Inr b"
            by (rule exI)
          with mb eq wr show ?thesis
            by simp
        qed
      qed
    qed
  qed
qed

lemma kptfileInitIfNot_success:
  assumes ok: "fst (kptfileInitIfNot env k w) = Returns None"
  shows "(\<exists>kf b. Inventory kf \<noteq> None \<and> marshal env kf = Inr b
            \<and> events (snd (snd (kptfileInitIfNot env k w))) \<noteq> []
            \<and> last (events (snd (snd (kptfileInitIfNot env k w)))) = WriteFile (kptFilePath_of env k) b
            \<and> fs (snd (snd (kptfileInitIfNot env k w))) (kptFilePath_of env k) = Some (File True True b))
       \<or> (\<exists>f0. runCmd env (''kpt'' # liveInitArgs k) f0 = (None, fs (snd (snd (kptfileInitIfNot env k w))))
            \<and> events (snd (snd (kptfileInitIfNot env k w))) \<noteq> []
            \<and> last (events (snd (snd (kptfileInitIfNot env k w)))) = Exec (''kpt'' # liveInitArgs k))"
proof (cases "fs w (kptFilePath_of env k)")
  case (Some f)
  then have "kptfileInitIfNot env k w = afterPkgInit env k w"
    by (simp add: kptfileInitIfNot_unfold)
  with afterPkgInit_success [of env k w] ok show ?thesis
    by auto
next
  case None
  obtain r w0 where run: "RunCmd env [''kpt'', ''pkg'', ''init'', applyDir k] w = (r, w0)"
    by (cases "RunCmd env [''kpt'', ''pkg'', ''init'', applyDir k] w") auto
  show ?thesis
  proof (cases r)
    case (Some err)
    with None run ok show ?thesis
      by (simp add: kptfileInitIfNot_unfold)
  next
    case r: None
    with None run have "kptfileInitIfNot env k w = afterPkgInit env k w0"
      by (simp add: kptfileInitIfNot_unfold)
    with afterPkgInit_success [of env k w0] ok show ?thesis
      by auto
  qed
qed

text \<open>Evaluation of the test double.\<close>

lemmas test_defs =
  testEnv0_def testEnvFailing_def testEnvSilentInit_def testEnv_def testYaml_def testCmds_def testDeployer_def
  testWorld_def kptfileWorld_def kfBare_def kfInv_def kptFilePath_of_def KptFileName_def
  defaultNs_def

lemmas eval_defs =
  kptfileInitIfNot_unfold afterPkgInit_def openFile_def mergeInventory_eq ioutil_WriteFile_def
  RunCmd_eq liveInitArgs_eq applyArgs_eq hasInventory_def Let_def

section \<open>Bootstrap and merge exclude each other\<close>

text \<open>
  A run of the reconciler over a state file that exists, can be opened and decodes to a
  Kptfile struct: if the struct has no inventory block, the only thing the run does is
  to invoke the inventory initializer \<^verbatim>\<open>kpt live init\<close> once (no warning, no write, the
  deployer untouched, so the merge branch is not entered); if it has an inventory block,
  the run logs warnings and writes, and never invokes the inventory initializer.
\<close>

lemma reconciler_bootstrap_merge_exclusive:
  assumes "fs w (kptFilePath_of env k) = Some f" and "readable f"
    and "decode env (contents f) = Inr (Some kf)"
  shows "case kptfileInitIfNot env k w of (r, k', w') \<Rightarrow>
     (Inventory kf = None \<longrightarrow>
        events w' = events w @ [Exec (''kpt'' # liveInitArgs k)]
        \<and> isLiveInit (Exec (''kpt'' # liveInitArgs k)) \<and> k' = k)
     \<and> (Inventory kf \<noteq> None \<longrightarrow>
        (\<exists>evs. events w' = events w @ evs \<and> filter isLiveInit evs = []
           \<and> (\<forall>e\<in>set evs. isWarnf e \<or> isWriteFile e)))"
proof (cases "Inventory kf")
  case None
  with assms show ?thesis
    by (simp add: kptfileInitIfNot_unfold afterPkgInit_liveInit isLiveInit_liveInitArgs)
next
  case (Some i)
  from afterPkgInit_merge_events [OF assms Some] obtain evs
    where evs: "events (snd (snd (afterPkgInit env k w))) = events w @ evs"
      "\<forall>e\<in>set evs. isWarnf e \<or> isWriteFile e"
    by blast
  have "\<forall>e\<in>set evs. \<not> isLiveInit e"
  proof
    fix e assume "e \<in> set evs"
    with evs(2) have "isWarnf e \<or> isWriteFile e" by blast
    then show "\<not> isLiveInit e" by (cases e) auto
  qed
  then have "filter isLiveInit evs = []"
    by (simp add: filter_empty_conv)
  with evs Some assms(1) show ?thesis
    by (auto simp: kptfileInitIfNot_unfold split: prod.splits)
qed

text \<open>
  Claim C5 says that a run over an existing, parseable state file without an inventory
  block invokes the inventory initializer exactly once. A state file that holds a null
  YAML document exists, parses without error and has no inventory block, but the decoder
  leaves \<^verbatim>\<open>kfConfig\<close> nil and the test \<^verbatim>\<open>kfConfig.Inventory == nil\<close> panics: the run ends
  there, and \<^verbatim>\<open>kpt live init\<close> has not been invoked.
\<close>

theorem C5_bootstrap_merge_exclusive_null_document:
  "openFile (fs (kptfileWorld ''null'')) (kptFilePath_of testEnv0 (testDeployer ''app1'' [] [] []))
     = Inr ''null''
   \<and> decode testEnv0 ''null'' = Inr None
   \<and> fst (kptfileInitIfNot testEnv0 (testDeployer ''app1'' [] [] []) (kptfileWorld ''null''))
     = Panics ''runtime error: invalid memory address or nil pointer dereference''
   \<and> events (snd (snd (kptfileInitIfNot testEnv0 (testDeployer ''app1'' [] [] [])
        (kptfileWorld ''null''))))
     = []
   \<and> filter isLiveInit (events (snd (snd (kptfileInitIfNot testEnv0 (testDeployer ''app1'' [] [] [])
        (kptfileWorld ''null'')))))
     = []"
  by (simp add: eval_defs test_defs)

section \<open>Bootstrapping from an empty directory\<close>

text \<open>
  Claim C3 says that, from a directory without a state file and the desired inventory
  name \<open>app1\<close> with no ID and no namespace, the reconciler runs \<^verbatim>\<open>kpt pkg init\<close>, then
  \<^verbatim>\<open>kpt live init\<close> with \<^verbatim>\<open>--name app1\<close>, and that the fallback namespace \<open>default\<close> is
  applied to the resulting inventory. The two invocations are as claimed; the fallback
  is not applied: the run passes no \<^verbatim>\<open>--namespace\<close>, leaves both namespace fields of the
  deployer empty and writes nothing, so the inventory has whatever namespace
  \<^verbatim>\<open>kpt live init\<close> chose. Here the initializer chooses \<open>team-a\<close>.
\<close>

theorem C3_bootstrap_inventory_counterexample:
  "fs (testWorld []) (kptFilePath_of testEnv0 (testDeployer ''app1'' [] [] [])) = None
   \<and> fst (kptfileInitIfNot testEnv0 (testDeployer ''app1'' [] [] []) (testWorld [])) = Returns None
   \<and> events (snd (snd (kptfileInitIfNot testEnv0 (testDeployer ''app1'' [] [] []) (testWorld []))))
     = [Exec [''kpt'', ''pkg'', ''init'', ''app''],
        Exec [''kpt'', ''live'', ''init'', ''app'', ''--name'', ''app1'']]
   \<and> namespace (fst (snd (kptfileInitIfNot testEnv0 (testDeployer ''app1'' [] [] []) (testWorld [])))) = []
   \<and> InventoryNamespace (KptV2Deploy
        (fst (snd (kptfileInitIfNot testEnv0 (testDeployer ''app1'' [] [] []) (testWorld []))))) = []
   \<and> openFile (fs (snd (snd (kptfileInitIfNot testEnv0 (testDeployer ''app1'' [] [] []) (testWorld [])))))
        ''app/Kptfile'' = Inr ''id1/app1/team-a''
   \<and> decode testEnv0 ''id1/app1/team-a''
     = Inr (Some \<lparr>Inventory = Some \<lparr>Namespace = ''team-a'', Name = ''app1'', InventoryID = ''id1''\<rparr>\<rparr>)
   \<and> ''team-a'' \<noteq> defaultNs"
  by (simp add: eval_defs test_defs)

text \<open>
  Claim C3, amended. Starting without a state file, with the desired name \<open>app1\<close> and
  the desired inventory ID and both desired namespaces empty, and provided
  \<^verbatim>\<open>kpt pkg init\<close> succeeds and leaves a readable, parseable state file without an
  inventory block: the reconciler first runs \<^verbatim>\<open>kpt pkg init\<close> on the directory and then
  \<^verbatim>\<open>kpt live init\<close> on the directory with the configured flags and \<^verbatim>\<open>--name app1\<close> (and
  \<^verbatim>\<open>--force true\<close> when forced), with no \<^verbatim>\<open>--inventory-id\<close> and no \<^verbatim>\<open>--namespace\<close> of its
  own. It does nothing else: no write, no warning, the deployer unchanged, and the file
  system left as the inventory initializer left it. No fallback namespace is applied in
  this run.
\<close>

theorem C3_bootstrap_inventory:
  assumes "fs w (kptFilePath_of env k) = None"
    and "runCmd env [''kpt'', ''pkg'', ''init'', applyDir k] (fs w) = (None, f1)"
    and "f1 (kptFilePath_of env k) = Some f" and "readable f"
    and "decode env (contents f) = Inr (Some kf)" and "Inventory kf = None"
    and "KptV2Deploy.Name (KptV2Deploy k) = ''app1''"
    and "KptV2Deploy.InventoryID (KptV2Deploy k) = []"
    and "namespace k = []" and "InventoryNamespace (KptV2Deploy k) = []"
  shows "case kptfileInitIfNot env k w of (r, k', w') \<Rightarrow>
     events w' = events w
       @ [Exec [''kpt'', ''pkg'', ''init'', applyDir k],
          Exec ([''kpt'', ''live'', ''init'', applyDir k] @ Flags (KptV2Deploy k)
                @ [''--name'', ''app1'']
                @ (if Force (KptV2Deploy k) then [''--force'', ''true''] else []))]
     \<and> k' = k
     \<and> fs w' = snd (runCmd env
                ([''kpt'', ''live'', ''init'', applyDir k] @ Flags (KptV2Deploy k)
                 @ [''--name'', ''app1'']
                 @ (if Force (KptV2Deploy k) then [''--force'', ''true''] else [])) f1)
     \<and> r = Returns (map_option (\<lambda>err. liveInitErr err (applyDir k))
           (fst (runCmd env
                ([''kpt'', ''live'', ''init'', applyDir k] @ Flags (KptV2Deploy k)
                 @ [''--name'', ''app1'']
                 @ (if Force (KptV2Deploy k) then [''--force'', ''true''] else [])) f1)))"
proof -
  have args: "''kpt'' # liveInitArgs k =
      [''kpt'', ''live'', ''init'', applyDir k] @ Flags (KptV2Deploy k) @ [''--name'', ''app1'']
      @ (if Force (KptV2Deploy k) then [''--force'', ''true''] else [])"
    using assms(7-10) by (simp add: liveInitArgs_eq)
  show ?thesis
    unfolding kptfileInitIfNot_bootstrap [OF assms(1-6)] args
    by simp
qed

theorem C3_bootstrap_inventory_witness:
  "fs (testWorld []) (kptFilePath_of testEnv0 (testDeployer ''app1'' [] [] [])) = None
   \<and> runCmd testEnv0 [''kpt'', ''pkg'', ''init'', ''app''] (fs (testWorld []))
     = (None, map_of [(''app/Kptfile'', File True True ''bare'')])
   \<and> decode testEnv0 ''bare'' = Inr (Some kfBare)
   \<and> Inventory kfBare = None
   \<and> fst (kptfileInitIfNot testEnv0 (testDeployer ''app1'' [] [] []) (testWorld [])) = Returns None
   \<and> fst (snd (kptfileInitIfNot testEnv0 (testDeployer ''app1'' [] [] []) (testWorld [])))
     = testDeployer ''app1'' [] [] []
   \<and> events (snd (snd (kptfileInitIfNot testEnv0 (testDeployer ''app1'' [] [] []) (testWorld []))))
     = [Exec [''kpt'', ''pkg'', ''init'', ''app''],
        Exec [''kpt'', ''live'', ''init'', ''app'', ''--name'', ''app1'']]"
  using C3_bootstrap_inventory
    [of "testWorld []" testEnv0 "testDeployer ''app1'' [] [] []"
        "map_of [(''app/Kptfile'', File True True ''bare'')]" "File True True ''bare''" kfBare]
  by (simp add: test_defs split: prod.splits)

section \<open>The field rule of the merge branch\<close>

text \<open>
  Claim C2 says that each of \<open>InventoryID\<close>, \<open>Name\<close> and \<open>Namespace\<close> is overwritten
  exactly when its desired value is non-empty and differs from the stored one. That
  holds for \<open>InventoryID\<close> and \<open>Name\<close>, not for \<open>Namespace\<close>: with every desired value
  empty and the stored namespace \<open>ns-a\<close>, the run overwrites the namespace with
  \<open>default\<close>, logs the change and writes the file.
\<close>

theorem C2_merge_field_rule_counterexample:
  "KptV2Deploy.Name (KptV2Deploy (testDeployer [] [] [] [])) = []
   \<and> KptV2Deploy.InventoryID (KptV2Deploy (testDeployer [] [] [] [])) = []
   \<and> namespace (testDeployer [] [] [] []) = []
   \<and> InventoryNamespace (KptV2Deploy (testDeployer [] [] [] [])) = []
   \<and> openFile (fs (kptfileWorld ''x/old/ns-a'')) (kptFilePath_of testEnv0 (testDeployer [] [] [] []))
       = Inr ''x/old/ns-a''
   \<and> decode testEnv0 ''x/old/ns-a'' = Inr (Some (kfInv ''ns-a'' ''old'' ''x''))
   \<and> events (snd (snd (kptfileInitIfNot testEnv0 (testDeployer [] [] [] []) (kptfileWorld ''x/old/ns-a''))))
       = [Warnf ''Updating Kptfile namespace from %v to %v'' [''ns-a'', ''default''],
          WriteFile ''app/Kptfile'' ''x/old/default'']
   \<and> decode testEnv0 ''x/old/default'' = Inr (Some (kfInv ''default'' ''old'' ''x''))"
proof -
  have m: "mergeInventory (testDeployer [] [] [] [])
             \<lparr>Namespace = ''ns-a'', Name = ''old'', InventoryID = ''x''\<rparr> (kptfileWorld ''x/old/ns-a'')
           = (testDeployer [] [] ''default'' ''default'',
              \<lparr>Namespace = ''default'', Name = ''old'', InventoryID = ''x''\<rparr>,
              \<lparr>fs = map_of [(''app/Kptfile'', File True True ''x/old/ns-a'')],
               events = [Warnf ''Updating Kptfile namespace from %v to %v'' [''ns-a'', ''default'']]\<rparr>)"
    by (simp add: mergeInventory_eq test_defs)
  have "kptfileInitIfNot testEnv0 (testDeployer [] [] [] []) (kptfileWorld ''x/old/ns-a'')
        = (Returns None, testDeployer [] [] ''default'' ''default'',
           \<lparr>fs = (map_of [(''app/Kptfile'', File True True ''x/old/ns-a'')])
                    (''app/Kptfile'' \<mapsto> File True True ''x/old/default''),
            events = [Warnf ''Updating Kptfile namespace from %v to %v'' [''ns-a'', ''default''],
                      WriteFile ''app/Kptfile'' ''x/old/default'']\<rparr>)"
    by (subst kptfileInitIfNot_merge
          [where f = "File True True ''x/old/ns-a''" and kf = "kfInv ''ns-a'' ''old'' ''x''", OF _ _ _ _ m])
       (simp_all add: test_defs)
  then show ?thesis
    by (simp add: test_defs openFile_def)
qed

text \<open>
  Claim C2, amended. \<open>InventoryID\<close> and \<open>Name\<close> are overwritten, each with a warning that
  names the field, the old and the new value, exactly when the desired value is
  non-empty and differs from the stored one, and keep the stored value otherwise. For
  \<open>Namespace\<close>, the per-unit namespace and the global inventory namespace are first
  replaced by \<open>default\<close> where they are empty; the stored namespace is then overwritten,
  with a warning, by the per-unit namespace when the two differ, otherwise by the global
  inventory namespace when that differs, and is kept otherwise. The merged struct is
  marshalled and its bytes are written.
\<close>

theorem C2_merge_field_rule:
  assumes "fs w (kptFilePath_of env k) = Some f" and "readable f"
    and "decode env (contents f) = Inr (Some kf)" and "Inventory kf = Some i"
  shows "case kptfileInitIfNot env k w of (r, k', w') \<Rightarrow>
     (let dID = KptV2Deploy.InventoryID (KptV2Deploy k);
          dName = KptV2Deploy.Name (KptV2Deploy k);
          ns = (if namespace k = [] then ''default'' else namespace k);
          gns = (if InventoryNamespace (KptV2Deploy k) = [] then ''default''
                 else InventoryNamespace (KptV2Deploy k));
          warnings =
            (if dID \<noteq> [] \<and> dID \<noteq> Inventory.InventoryID i
             then [Warnf ''Updating Kptfile inventory from %v to %v'' [Inventory.InventoryID i, dID]]
             else [])
            @ (if dName \<noteq> [] \<and> dName \<noteq> Inventory.Name i
               then [Warnf ''Updating Kptfile name from %v to %v'' [Inventory.Name i, dName]]
               else [])
            @ (if ns \<noteq> Namespace i
               then [Warnf ''Updating Kptfile namespace from %v to %v'' [Namespace i, ns]]
               else if gns \<noteq> Namespace i
               then [Warnf ''Updating Kptfile namespace from %v to %v'' [Namespace i, gns]]
               else [])
      in case marshal env (kf\<lparr>Inventory := Some
            \<lparr>Namespace = (if ns \<noteq> Namespace i then ns
                          else if gns \<noteq> Namespace i then gns else Namespace i),
             Name = (if dName \<noteq> [] \<and> dName \<noteq> Inventory.Name i then dName else Inventory.Name i),
             InventoryID = (if dID \<noteq> [] \<and> dID \<noteq> Inventory.InventoryID i then dID
                            else Inventory.InventoryID i)\<rparr>\<rparr>) of
           Inl err \<Rightarrow> r = Returns (Some err) \<and> events w' = events w @ warnings
         | Inr b \<Rightarrow>
             events w' = events w @ warnings @ [WriteFile (kptFilePath_of env k) b]
             \<and> (writable f \<longrightarrow> r = Returns None
                   \<and> fs w' (kptFilePath_of env k) = Some (File True True b)))"
proof -
  obtain k' i' w1 where m: "mergeInventory k i w = (k', i', w1)"
    by (cases "mergeInventory k i w") auto
  define ns where "ns = (if namespace k = [] then ''default'' else namespace k)"
  define gns where "gns = (if InventoryNamespace (KptV2Deploy k) = [] then ''default''
                 else InventoryNamespace (KptV2Deploy k))"
  define dID where "dID = KptV2Deploy.InventoryID (KptV2Deploy k)"
  define dName where "dName = KptV2Deploy.Name (KptV2Deploy k)"
  define warnings where "warnings =
            (if dID \<noteq> [] \<and> dID \<noteq> Inventory.InventoryID i
             then [Warnf ''Updating Kptfile inventory from %v to %v'' [Inventory.InventoryID i, dID]]
             else [])
            @ (if dName \<noteq> [] \<and> dName \<noteq> Inventory.Name i
               then [Warnf ''Updating Kptfile name from %v to %v'' [Inventory.Name i, dName]]
               else [])
            @ (if ns \<noteq> Namespace i
               then [Warnf ''Updating Kptfile namespace from %v to %v'' [Namespace i, ns]]
               else if gns \<noteq> Namespace i
               then [Warnf ''Updating Kptfile namespace from %v to %v'' [Namespace i, gns]]
               else [])"
  have "fst (snd (mergeInventory k i w)) = \<lparr>Namespace = (if ns \<noteq> Namespace i then ns
                          else if gns \<noteq> Namespace i then gns else Namespace i),
             Name = (if dName \<noteq> [] \<and> dName \<noteq> Inventory.Name i then dName else Inventory.Name i),
             InventoryID = (if dID \<noteq> [] \<and> dID \<noteq> Inventory.InventoryID i then dID
                            else Inventory.InventoryID i)\<rparr>"
    by (simp add: mergeInventory_eq ns_def gns_def dID_def dName_def defaultNs_def)
  with m have i': "i' = \<lparr>Namespace = (if ns \<noteq> Namespace i then ns
                          else if gns \<noteq> Namespace i then gns else Namespace i),
             Name = (if dName \<noteq> [] \<and> dName \<noteq> Inventory.Name i then dName else Inventory.Name i),
             InventoryID = (if dID \<noteq> [] \<and> dID \<noteq> Inventory.InventoryID i then dID
                            else Inventory.InventoryID i)\<rparr>"
    by simp
  have "events (snd (snd (mergeInventory k i w))) = events w @ warnings"
    by (simp add: mergeInventory_eq warnings_def ns_def gns_def dID_def dName_def defaultNs_def)
  with m have ev: "events w1 = events w @ warnings"
    by simp
  show ?thesis
    unfolding kptfileInitIfNot_merge [OF assms(1-4) m] Let_def
      ns_def [symmetric] gns_def [symmetric] dID_def [symmetric] dName_def [symmetric]
      warnings_def [symmetric] i' [symmetric]
    using ev by (cases "marshal env (kf\<lparr>Inventory := Some i'\<rparr>)") simp_all
qed

theorem C2_merge_field_rule_witness:
  "fs (kptfileWorld ''x/old/default'') (kptFilePath_of testEnv0 (testDeployer ''new'' [] [] []))
     = Some (File True True ''x/old/default'')
   \<and> decode testEnv0 ''x/old/default'' = Inr (Some (kfInv ''default'' ''old'' ''x''))
   \<and> fst (kptfileInitIfNot testEnv0 (testDeployer ''new'' [] [] []) (kptfileWorld ''x/old/default'')) = Returns None
   \<and> events (snd (snd (kptfileInitIfNot testEnv0 (testDeployer ''new'' [] [] [])
        (kptfileWorld ''x/old/default''))))
     = [Warnf ''Updating Kptfile name from %v to %v'' [''old'', ''new''],
        WriteFile ''app/Kptfile'' ''x/new/default'']
   \<and> fs (snd (snd (kptfileInitIfNot testEnv0 (testDeployer ''new'' [] [] [])
        (kptfileWorld ''x/old/default'')))) ''app/Kptfile''
     = Some (File True True ''x/new/default'')
   \<and> decode testEnv0 ''x/new/default'' = Inr (Some (kfInv ''default'' ''new'' ''x''))"
  using C2_merge_field_rule
    [of "kptfileWorld ''x/old/default''" testEnv0 "testDeployer ''new'' [] [] []"
        "File True True ''x/old/default''" "kfInv ''default'' ''old'' ''x''"
        "\<lparr>Namespace = ''default'', Name = ''old'', InventoryID = ''x''\<rparr>"]
  by (simp add: test_defs Let_def split: prod.splits)

section \<open>Namespace resolution in the merge branch\<close>

text \<open>
  Claim C6. In the merge branch, with stored inventory namespace \<open>ns-a\<close>, per-unit
  namespace \<open>ns-b\<close> and global inventory namespace \<open>ns-c\<close>, the inventory that the
  reconciler marshals has namespace \<open>ns-b\<close>: the change is logged as a warning from
  \<open>ns-a\<close> to \<open>ns-b\<close>, the marshalled bytes are handed to \<^verbatim>\<open>ioutil.WriteFile\<close>, and they
  are the content of the state file afterwards when the file is writable. If the
  struct cannot be marshalled, the run returns that error and writes nothing.
\<close>

theorem C6_namespace_precedence:
  assumes "fs w (kptFilePath_of env k) = Some f" and "readable f"
    and "decode env (contents f) = Inr (Some kf)" and "Inventory kf = Some i"
    and "Namespace i = ''ns-a''" and "namespace k = ''ns-b''"
    and "InventoryNamespace (KptV2Deploy k) = ''ns-c''"
  shows "case kptfileInitIfNot env k w of (r, k', w') \<Rightarrow>
     (case marshal env (kf\<lparr>Inventory := Some
          \<lparr>Namespace = ''ns-b'',
           Name = (if KptV2Deploy.Name (KptV2Deploy k) \<noteq> []
                   then KptV2Deploy.Name (KptV2Deploy k) else Inventory.Name i),
           InventoryID = (if KptV2Deploy.InventoryID (KptV2Deploy k) \<noteq> []
                   then KptV2Deploy.InventoryID (KptV2Deploy k) else Inventory.InventoryID i)\<rparr>\<rparr>) of
        Inl err \<Rightarrow> r = Returns (Some err) \<and> filter isWriteFile (drop (length (events w)) (events w')) = []
      | Inr b \<Rightarrow>
          events w' = events w
             @ (if KptV2Deploy.InventoryID (KptV2Deploy k) \<noteq> []
                   \<and> KptV2Deploy.InventoryID (KptV2Deploy k) \<noteq> Inventory.InventoryID i
                then [Warnf ''Updating Kptfile inventory from %v to %v''
                        [Inventory.InventoryID i, KptV2Deploy.InventoryID (KptV2Deploy k)]] else [])
             @ (if KptV2Deploy.Name (KptV2Deploy k) \<noteq> []
                   \<and> KptV2Deploy.Name (KptV2Deploy k) \<noteq> Inventory.Name i
                then [Warnf ''Updating Kptfile name from %v to %v''
                        [Inventory.Name i, KptV2Deploy.Name (KptV2Deploy k)]] else [])
             @ [Warnf ''Updating Kptfile namespace from %v to %v'' [''ns-a'', ''ns-b''],
                WriteFile (kptFilePath_of env k) b]
          \<and> (writable f \<longrightarrow> r = Returns None
                \<and> fs w' (kptFilePath_of env k) = Some (File True True b)))"
proof -
  define ws where "ws =
       (if KptV2Deploy.InventoryID (KptV2Deploy k) \<noteq> []
           \<and> KptV2Deploy.InventoryID (KptV2Deploy k) \<noteq> Inventory.InventoryID i
        then [Warnf ''Updating Kptfile inventory from %v to %v''
                [Inventory.InventoryID i, KptV2Deploy.InventoryID (KptV2Deploy k)]] else [])
     @ (if KptV2Deploy.Name (KptV2Deploy k) \<noteq> []
           \<and> KptV2Deploy.Name (KptV2Deploy k) \<noteq> Inventory.Name i
        then [Warnf ''Updating Kptfile name from %v to %v''
                [Inventory.Name i, KptV2Deploy.Name (KptV2Deploy k)]] else [])"
  obtain k' i' w1 where m: "mergeInventory k i w = (k', i', w1)"
    by (cases "mergeInventory k i w") auto
  from m assms(5-7) have i': "i' = \<lparr>Namespace = ''ns-b'',
           Name = (if KptV2Deploy.Name (KptV2Deploy k) \<noteq> []
                   then KptV2Deploy.Name (KptV2Deploy k) else Inventory.Name i),
           InventoryID = (if KptV2Deploy.InventoryID (KptV2Deploy k) \<noteq> []
                   then KptV2Deploy.InventoryID (KptV2Deploy k) else Inventory.InventoryID i)\<rparr>"
    by (simp add: mergeInventory_eq)
  from m assms(5-7) have ev: "events w1 = events w @ ws
       @ [Warnf ''Updating Kptfile namespace from %v to %v'' [''ns-a'', ''ns-b'']]"
    by (auto simp: mergeInventory_eq ws_def)
  have nw: "filter isWriteFile (ws @ [Warnf ''Updating Kptfile namespace from %v to %v'' [''ns-a'', ''ns-b'']]) = []"
    by (simp add: ws_def)
  show ?thesis
    unfolding kptfileInitIfNot_merge [OF assms(1-4) m] i' [symmetric]
    using ev nw by (cases "marshal env (kf\<lparr>Inventory := Some i'\<rparr>)") (simp_all add: ws_def)
qed

theorem C6_namespace_precedence_witness:
  "fs (kptfileWorld ''x/old/ns-a'') (kptFilePath_of testEnv0 (testDeployer [] [] ''ns-b'' ''ns-c''))
     = Some (File True True ''x/old/ns-a'')
   \<and> decode testEnv0 ''x/old/ns-a'' = Inr (Some (kfInv ''ns-a'' ''old'' ''x''))
   \<and> namespace (testDeployer [] [] ''ns-b'' ''ns-c'') = ''ns-b''
   \<and> InventoryNamespace (KptV2Deploy (testDeployer [] [] ''ns-b'' ''ns-c'')) = ''ns-c''
   \<and> fst (kptfileInitIfNot testEnv0 (testDeployer [] [] ''ns-b'' ''ns-c'') (kptfileWorld ''x/old/ns-a'')) = Returns None
   \<and> events (snd (snd (kptfileInitIfNot testEnv0 (testDeployer [] [] ''ns-b'' ''ns-c'')
        (kptfileWorld ''x/old/ns-a''))))
     = [Warnf ''Updating Kptfile namespace from %v to %v'' [''ns-a'', ''ns-b''],
        WriteFile ''app/Kptfile'' ''x/old/ns-b'']
   \<and> fs (snd (snd (kptfileInitIfNot testEnv0 (testDeployer [] [] ''ns-b'' ''ns-c'')
        (kptfileWorld ''x/old/ns-a'')))) ''app/Kptfile''
     = Some (File True True ''x/old/ns-b'')
   \<and> decode testEnv0 ''x/old/ns-b'' = Inr (Some (kfInv ''ns-b'' ''old'' ''x''))"
  using C6_namespace_precedence
    [of "kptfileWorld ''x/old/ns-a''" testEnv0 "testDeployer [] [] ''ns-b'' ''ns-c''"
        "File True True ''x/old/ns-a''" "kfInv ''ns-a'' ''old'' ''x''"
        "\<lparr>Namespace = ''ns-a'', Name = ''old'', InventoryID = ''x''\<rparr>"]
  by (simp add: test_defs split: prod.splits)

text \<open>
  Claim C7. In the merge branch, with the stored inventory namespace empty and both
  desired namespaces empty, the inventory that the reconciler marshals has the
  namespace \<open>default\<close>: the change is logged as a warning, the marshalled bytes are
  handed to \<^verbatim>\<open>ioutil.WriteFile\<close>, and they are the content of the state file afterwards
  when the file is writable. If the struct cannot be marshalled, the run returns that
  error and writes nothing.
\<close>

theorem C7_namespace_default:
  assumes "fs w (kptFilePath_of env k) = Some f" and "readable f"
    and "decode env (contents f) = Inr (Some kf)" and "Inventory kf = Some i"
    and "Namespace i = []" and "namespace k = []"
    and "InventoryNamespace (KptV2Deploy k) = []"
  shows "defaultNs = ''default'' \<and>
     (case kptfileInitIfNot env k w of (r, k', w') \<Rightarrow>
     (case marshal env (kf\<lparr>Inventory := Some
          \<lparr>Namespace = ''default'',
           Name = (if KptV2Deploy.Name (KptV2Deploy k) \<noteq> []
                   then KptV2Deploy.Name (KptV2Deploy k) else Inventory.Name i),
           InventoryID = (if KptV2Deploy.InventoryID (KptV2Deploy k) \<noteq> []
                   then KptV2Deploy.InventoryID (KptV2Deploy k) else Inventory.InventoryID i)\<rparr>\<rparr>) of
        Inl err \<Rightarrow> r = Returns (Some err) \<and> filter isWriteFile (drop (length (events w)) (events w')) = []
      | Inr b \<Rightarrow>
          events w' = events w
             @ (if KptV2Deploy.InventoryID (KptV2Deploy k) \<noteq> []
                   \<and> KptV2Deploy.InventoryID (KptV2Deploy k) \<noteq> Inventory.InventoryID i
                then [Warnf ''Updating Kptfile inventory from %v to %v''
                        [Inventory.InventoryID i, KptV2Deploy.InventoryID (KptV2Deploy k)]] else [])
             @ (if KptV2Deploy.Name (KptV2Deploy k) \<noteq> []
                   \<and> KptV2Deploy.Name (KptV2Deploy k) \<noteq> Inventory.Name i
                then [Warnf ''Updating Kptfile name from %v to %v''
                        [Inventory.Name i, KptV2Deploy.Name (KptV2Deploy k)]] else [])
             @ [Warnf ''Updating Kptfile namespace from %v to %v'' [[], ''default''],
                WriteFile (kptFilePath_of env k) b]
          \<and> (writable f \<longrightarrow> r = Returns None
                \<and> fs w' (kptFilePath_of env k) = Some (File True True b))))"
proof -
  define ws where "ws =
       (if KptV2Deploy.InventoryID (KptV2Deploy k) \<noteq> []
           \<and> KptV2Deploy.InventoryID (KptV2Deploy k) \<noteq> Inventory.InventoryID i
        then [Warnf ''Updating Kptfile inventory from %v to %v''
                [Inventory.InventoryID i, KptV2Deploy.InventoryID (KptV2Deploy k)]] else [])
     @ (if KptV2Deploy.Name (KptV2Deploy k) \<noteq> []
           \<and> KptV2Deploy.Name (KptV2Deploy k) \<noteq> Inventory.Name i
        then [Warnf ''Updating Kptfile name from %v to %v''
                [Inventory.Name i, KptV2Deploy.Name (KptV2Deploy k)]] else [])"
  obtain k' i' w1 where m: "mergeInventory k i w = (k', i', w1)"
    by (cases "mergeInventory k i w") auto
  have "fst (snd (mergeInventory k i w)) = \<lparr>Namespace = ''default'',
           Name = (if KptV2Deploy.Name (KptV2Deploy k) \<noteq> []
                   then KptV2Deploy.Name (KptV2Deploy k) else Inventory.Name i),
           InventoryID = (if KptV2Deploy.InventoryID (KptV2Deploy k) \<noteq> []
                   then KptV2Deploy.InventoryID (KptV2Deploy k) else Inventory.InventoryID i)\<rparr>"
    using assms(5-7) by (simp add: mergeInventory_eq defaultNs_def)
  with m have i': "i' = \<lparr>Namespace = ''default'',
           Name = (if KptV2Deploy.Name (KptV2Deploy k) \<noteq> []
                   then KptV2Deploy.Name (KptV2Deploy k) else Inventory.Name i),
           InventoryID = (if KptV2Deploy.InventoryID (KptV2Deploy k) \<noteq> []
                   then KptV2Deploy.InventoryID (KptV2Deploy k) else Inventory.InventoryID i)\<rparr>"
    by simp
  have "events (snd (snd (mergeInventory k i w))) = events w @ ws
       @ [Warnf ''Updating Kptfile namespace from %v to %v'' [[], ''default'']]"
    using assms(5-7) by (simp add: mergeInventory_eq ws_def defaultNs_def)
  with m have ev: "events w1 = events w @ ws
       @ [Warnf ''Updating Kptfile namespace from %v to %v'' [[], ''default'']]"
    by simp
  have nw: "filter isWriteFile (ws @ [Warnf ''Updating Kptfile namespace from %v to %v'' [[], ''default'']]) = []"
    by (simp add: ws_def)
  show ?thesis
    unfolding kptfileInitIfNot_merge [OF assms(1-4) m] i' [symmetric]
    using ev nw
    by (cases "marshal env (kf\<lparr>Inventory := Some i'\<rparr>)") (simp_all add: ws_def defaultNs_def)
qed

theorem C7_namespace_default_witness:
  "fs (kptfileWorld ''x/old/'') (kptFilePath_of testEnv0 (testDeployer [] [] [] []))
     = Some (File True True ''x/old/'')
   \<and> decode testEnv0 ''x/old/'' = Inr (Some (kfInv [] ''old'' ''x''))
   \<and> namespace (testDeployer [] [] [] []) = []
   \<and> InventoryNamespace (KptV2Deploy (testDeployer [] [] [] [])) = []
   \<and> fst (kptfileInitIfNot testEnv0 (testDeployer [] [] [] []) (kptfileWorld ''x/old/'')) = Returns None
   \<and> events (snd (snd (kptfileInitIfNot testEnv0 (testDeployer [] [] [] []) (kptfileWorld ''x/old/''))))
     = [Warnf ''Updating Kptfile namespace from %v to %v'' [[], ''default''],
        WriteFile ''app/Kptfile'' ''x/old/default'']
   \<and> fs (snd (snd (kptfileInitIfNot testEnv0 (testDeployer [] [] [] []) (kptfileWorld ''x/old/''))))
        ''app/Kptfile''
     = Some (File True True ''x/old/default'')
   \<and> decode testEnv0 ''x/old/default'' = Inr (Some (kfInv ''default'' ''old'' ''x''))"
  using C7_namespace_default
    [of "kptfileWorld ''x/old/''" testEnv0 "testDeployer [] [] [] []"
        "File True True ''x/old/''" "kfInv [] ''old'' ''x''"
        "\<lparr>Namespace = [], Name = ''old'', InventoryID = ''x''\<rparr>"]
  by (simp add: test_defs split: prod.splits)

section \<open>A run whose desired inventory equals the stored one\<close>

text \<open>
  Claim C1 says that a run over a state file whose inventory block already equals the
  desired values performs no file write and no initializer call. The second half holds;
  the first does not: the merge branch marshals and writes the Kptfile on every run,
  whether or not a field changed. Here the stored inventory and the desired one are
  both \<open>x\<close>, \<open>app1\<close>, \<open>default\<close>, and the run writes the file once, with the bytes it
  already had.
\<close>

theorem C1_reconciler_idempotence_counterexample:
  "openFile (fs (kptfileWorld ''x/app1/default''))
       (kptFilePath_of testEnv0 (testDeployer ''app1'' ''x'' ''default'' ''default''))
     = Inr ''x/app1/default''
   \<and> decode testEnv0 ''x/app1/default''
     = Inr (Some \<lparr>Inventory = Some \<lparr>Namespace = ''default'', Name = ''app1'', InventoryID = ''x''\<rparr>\<rparr>)
   \<and> KptV2Deploy.InventoryID (KptV2Deploy (testDeployer ''app1'' ''x'' ''default'' ''default'')) = ''x''
   \<and> KptV2Deploy.Name (KptV2Deploy (testDeployer ''app1'' ''x'' ''default'' ''default'')) = ''app1''
   \<and> namespace (testDeployer ''app1'' ''x'' ''default'' ''default'') = ''default''
   \<and> InventoryNamespace (KptV2Deploy (testDeployer ''app1'' ''x'' ''default'' ''default'')) = ''default''
   \<and> filter isWriteFile (events (snd (snd (kptfileInitIfNot testEnv0
          (testDeployer ''app1'' ''x'' ''default'' ''default'') (kptfileWorld ''x/app1/default'')))))
     = [WriteFile ''app/Kptfile'' ''x/app1/default'']"
proof -
  have m: "mergeInventory (testDeployer ''app1'' ''x'' ''default'' ''default'')
             \<lparr>Namespace = ''default'', Name = ''app1'', InventoryID = ''x''\<rparr>
             (kptfileWorld ''x/app1/default'')
           = (testDeployer ''app1'' ''x'' ''default'' ''default'',
              \<lparr>Namespace = ''default'', Name = ''app1'', InventoryID = ''x''\<rparr>,
              kptfileWorld ''x/app1/default'')"
    by (simp add: mergeInventory_eq test_defs)
  have "kptfileInitIfNot testEnv0 (testDeployer ''app1'' ''x'' ''default'' ''default'')
          (kptfileWorld ''x/app1/default'')
        = (Returns None, testDeployer ''app1'' ''x'' ''default'' ''default'',
           (kptfileWorld ''x/app1/default'')
             \<lparr>fs := (fs (kptfileWorld ''x/app1/default''))
                      (''app/Kptfile'' \<mapsto> File True True ''x/app1/default''),
              events := [WriteFile ''app/Kptfile'' ''x/app1/default'']\<rparr>)"
    by (subst kptfileInitIfNot_merge
          [where f = "File True True ''x/app1/default''" and kf = "kfInv ''default'' ''app1'' ''x''",
           OF _ _ _ _ m])
       (simp_all add: test_defs)
  then show ?thesis
    by (simp add: test_defs openFile_def)
qed

text \<open>
  Claim C1, amended. When the state file exists and its inventory block equals the
  desired values, a run invokes neither \<^verbatim>\<open>kpt pkg init\<close> nor \<^verbatim>\<open>kpt live init\<close>, and it
  writes the state file exactly once whenever the struct can be marshalled (and not at
  all otherwise). The struct written is the stored one, except that an empty namespace
  has become \<open>default\<close>, which is logged. When the stored namespace is not empty, the
  deployer is unchanged, nothing is logged and the bytes written are those of the stored
  struct.
\<close>

theorem C1_reconciler_idempotence:
  assumes "fs w (kptFilePath_of env k) = Some f" and "readable f"
    and "decode env (contents f) = Inr (Some kf)" and "Inventory kf = Some i"
    and "KptV2Deploy.InventoryID (KptV2Deploy k) = Inventory.InventoryID i"
    and "KptV2Deploy.Name (KptV2Deploy k) = Inventory.Name i"
    and "namespace k = Namespace i"
    and "InventoryNamespace (KptV2Deploy k) = Namespace i"
  shows "case kptfileInitIfNot env k w of (r, k', w') \<Rightarrow>
     events w' = events w
       @ (if Namespace i = []
          then [Warnf ''Updating Kptfile namespace from %v to %v'' [[], ''default'']] else [])
       @ (case marshal env (kf\<lparr>Inventory := Some
              (i\<lparr>Namespace := (if Namespace i = [] then ''default'' else Namespace i)\<rparr>)\<rparr>) of
            Inl err \<Rightarrow> []
          | Inr b \<Rightarrow> [WriteFile (kptFilePath_of env k) b])
     \<and> filter isPkgInit (drop (length (events w)) (events w')) = []
     \<and> filter isLiveInit (drop (length (events w)) (events w')) = []
     \<and> (Namespace i \<noteq> [] \<longrightarrow>
          k' = k
          \<and> events w' = events w
               @ (case marshal env kf of Inl err \<Rightarrow> [] | Inr b \<Rightarrow> [WriteFile (kptFilePath_of env k) b]))"
proof -
  obtain k' i' w1 where m: "mergeInventory k i w = (k', i', w1)"
    by (cases "mergeInventory k i w") auto
  define ws where "ws =
     (if Namespace i = []
      then [Warnf ''Updating Kptfile namespace from %v to %v'' [[], ''default'']] else [])"
  have "fst (snd (mergeInventory k i w))
          = i\<lparr>Namespace := (if Namespace i = [] then ''default'' else Namespace i)\<rparr>"
    using assms(5-8) by (cases i) (simp add: mergeInventory_eq defaultNs_def)
  with m have i': "i' = i\<lparr>Namespace := (if Namespace i = [] then ''default'' else Namespace i)\<rparr>"
    by simp
  have "events (snd (snd (mergeInventory k i w))) = events w @ ws"
    using assms(5-8) by (simp add: mergeInventory_eq defaultNs_def ws_def)
  with m have ev: "events w1 = events w @ ws"
    by simp
  have k': "Namespace i \<noteq> [] \<longrightarrow> k' = k"
    using mergeInventory_deployer [of k i w] m assms(7,8) by (cases k) auto
  have kf: "Namespace i \<noteq> [] \<longrightarrow> kf\<lparr>Inventory := Some i'\<rparr> = kf"
    using assms(4) i' by (cases kf) auto
  have flt: "filter isPkgInit ws = []" "filter isLiveInit ws = []"
    by (simp_all add: ws_def)
  show ?thesis
    unfolding kptfileInitIfNot_merge [OF assms(1-4) m] i' [symmetric] ws_def [symmetric]
    using ev k' kf flt
    by (cases "marshal env (kf\<lparr>Inventory := Some i'\<rparr>)") (auto simp: ws_def)
qed

theorem C1_reconciler_idempotence_witness:
  "fs (kptfileWorld ''x/old/default'')
       (kptFilePath_of testEnv0 (testDeployer ''old'' ''x'' ''default'' ''default''))
     = Some (File True True ''x/old/default'')
   \<and> decode testEnv0 ''x/old/default'' = Inr (Some (kfInv ''default'' ''old'' ''x''))
   \<and> KptV2Deploy.InventoryID (KptV2Deploy (testDeployer ''old'' ''x'' ''default'' ''default'')) = ''x''
   \<and> KptV2Deploy.Name (KptV2Deploy (testDeployer ''old'' ''x'' ''default'' ''default'')) = ''old''
   \<and> namespace (testDeployer ''old'' ''x'' ''default'' ''default'') = ''default''
   \<and> InventoryNamespace (KptV2Deploy (testDeployer ''old'' ''x'' ''default'' ''default'')) = ''default''
   \<and> fst (snd (kptfileInitIfNot testEnv0 (testDeployer ''old'' ''x'' ''default'' ''default'')
        (kptfileWorld ''x/old/default'')))
     = testDeployer ''old'' ''x'' ''default'' ''default''
   \<and> events (snd (snd (kptfileInitIfNot testEnv0 (testDeployer ''old'' ''x'' ''default'' ''default'')
        (kptfileWorld ''x/old/default''))))
     = [WriteFile ''app/Kptfile'' ''x/old/default'']"
  using C1_reconciler_idempotence
    [of "kptfileWorld ''x/old/default''" testEnv0 "testDeployer ''old'' ''x'' ''default'' ''default''"
        "File True True ''x/old/default''" "kfInv ''default'' ''old'' ''x''"
        "\<lparr>Namespace = ''default'', Name = ''old'', InventoryID = ''x''\<rparr>"]
  by (simp add: test_defs split: prod.splits)

section \<open>The merge branch changes the deployer\<close>

text \<open>
  Claim C10. A run through the merge branch, whatever it returns, leaves the deployer
  with an empty per-unit namespace replaced by \<open>default\<close> and an empty
  \<open>InventoryNamespace\<close> replaced by \<open>default\<close>, and with nothing else changed. Both
  fields are then non-empty, every later run of the reconciler from that deployer
  returns the same deployer, and the arguments built for \<^verbatim>\<open>kpt live init\<close> from it carry
  \<^verbatim>\<open>--namespace\<close> with its per-unit namespace.
\<close>

theorem C10_merge_mutates_deployer:
  assumes "fs w (kptFilePath_of env k) = Some f" and "readable f"
    and "decode env (contents f) = Inr (Some kf)" and "Inventory kf = Some i"
  shows "case kptfileInitIfNot env k w of (r, k', w') \<Rightarrow>
     k' = k\<lparr>namespace := (if namespace k = [] then ''default'' else namespace k),
            KptV2Deploy := (KptV2Deploy k)\<lparr>InventoryNamespace :=
              (if InventoryNamespace (KptV2Deploy k) = [] then ''default''
               else InventoryNamespace (KptV2Deploy k))\<rparr>\<rparr>
     \<and> namespace k' \<noteq> [] \<and> InventoryNamespace (KptV2Deploy k') \<noteq> []
     \<and> (\<forall>env2 w2. fst (snd (kptfileInitIfNot (env2 :: 'r env) k' w2)) = k')
     \<and> liveInitArgs k' =
         [''live'', ''init'', applyDir k] @ Flags (KptV2Deploy k)
         @ (if KptV2Deploy.Name (KptV2Deploy k) \<noteq> []
            then [''--name'', KptV2Deploy.Name (KptV2Deploy k)] else [])
         @ (if KptV2Deploy.InventoryID (KptV2Deploy k) \<noteq> []
            then [''--inventory-id'', KptV2Deploy.InventoryID (KptV2Deploy k)] else [])
         @ [''--namespace'', if namespace k = [] then ''default'' else namespace k]
         @ (if Force (KptV2Deploy k) then [''--force'', ''true''] else [])"
proof -
  obtain k' i' w1 where m: "mergeInventory k i w = (k', i', w1)"
    by (cases "mergeInventory k i w") auto
  have k': "k' = k\<lparr>namespace := (if namespace k = [] then ''default'' else namespace k),
            KptV2Deploy := (KptV2Deploy k)\<lparr>InventoryNamespace :=
              (if InventoryNamespace (KptV2Deploy k) = [] then ''default''
               else InventoryNamespace (KptV2Deploy k))\<rparr>\<rparr>"
    using mergeInventory_deployer [of k i w] m by simp
  have ne: "namespace k' \<noteq> []" "InventoryNamespace (KptV2Deploy k') \<noteq> []"
    by (simp_all add: k')
  have later: "\<forall>env2 w2. fst (snd (kptfileInitIfNot (env2 :: 'r env) k' w2)) = k'"
    using kptfileInitIfNot_deployer_stable [OF ne] by blast
  have args: "liveInitArgs k' =
         [''live'', ''init'', applyDir k] @ Flags (KptV2Deploy k)
         @ (if KptV2Deploy.Name (KptV2Deploy k) \<noteq> []
            then [''--name'', KptV2Deploy.Name (KptV2Deploy k)] else [])
         @ (if KptV2Deploy.InventoryID (KptV2Deploy k) \<noteq> []
            then [''--inventory-id'', KptV2Deploy.InventoryID (KptV2Deploy k)] else [])
         @ [''--namespace'', if namespace k = [] then ''default'' else namespace k]
         @ (if Force (KptV2Deploy k) then [''--force'', ''true''] else [])"
    by (simp add: liveInitArgs_eq k')
  have "fst (snd (kptfileInitIfNot env k w)) = k'"
    unfolding kptfileInitIfNot_merge [OF assms m]
    by (simp split: sum.splits)
  with k' [symmetric] ne later args show ?thesis
    by (cases "kptfileInitIfNot env k w") simp
qed

theorem C10_merge_mutates_deployer_witness:
  "fs (kptfileWorld ''x/old/default'') (kptFilePath_of testEnv0 (testDeployer [] [] [] []))
     = Some (File True True ''x/old/default'')
   \<and> decode testEnv0 ''x/old/default'' = Inr (Some (kfInv ''default'' ''old'' ''x''))
   \<and> fst (snd (kptfileInitIfNot testEnv0 (testDeployer [] [] [] []) (kptfileWorld ''x/old/default'')))
     = testDeployer [] [] ''default'' ''default''
   \<and> fst (snd (kptfileInitIfNot testEnvFailing (testDeployer [] [] ''default'' ''default'')
        (testWorld [])))
     = testDeployer [] [] ''default'' ''default''
   \<and> liveInitArgs (testDeployer [] [] ''default'' ''default'')
     = [''live'', ''init'', ''app'', ''--namespace'', ''default'']"
  using C10_merge_mutates_deployer
    [of "kptfileWorld ''x/old/default''" testEnv0 "testDeployer [] [] [] []"
        "File True True ''x/old/default''" "kfInv ''default'' ''old'' ''x''"
        "\<lparr>Namespace = ''default'', Name = ''old'', InventoryID = ''x''\<rparr>"]
  by (auto simp: test_defs split: prod.splits)

section \<open>Deploy\<close>

text \<open>
  Claim C4 says that \<^verbatim>\<open>kpt live apply\<close> is reached only after the reconciler has
  completed successfully and that the state file then contains an inventory block. The
  first half holds. The second does not follow from the code: after \<^verbatim>\<open>kpt live init\<close>
  has reported success the reconciler returns without reading the state file again.
  Here the state file has no inventory block, \<^verbatim>\<open>kpt live init\<close> reports success and
  leaves the file as it was, and \<^verbatim>\<open>Deploy\<close> goes on to run \<^verbatim>\<open>kpt live apply\<close> on a state
  file without an inventory block.
\<close>

theorem C4_apply_requires_inventory_counterexample:
  "openFile (fs (kptfileWorld ''bare'')) ''app/Kptfile'' = Inr ''bare''
   \<and> decode testEnvSilentInit ''bare'' = Inr (Some \<lparr>Inventory = None\<rparr>)
   \<and> fst (kptfileInitIfNot testEnvSilentInit (testDeployer ''app1'' [] [] []) (kptfileWorld ''bare''))
     = Returns None
   \<and> \<not> hasInventory testEnvSilentInit
        (fs (snd (Deploy_collect testEnvSilentInit (testDeployer ''app1'' [] [] [])
           (snd (snd (kptfileInitIfNot testEnvSilentInit (testDeployer ''app1'' [] [] [])
              (kptfileWorld ''bare'')))))))
        ''app/Kptfile''
   \<and> fst (Deploy testEnvSilentInit (testDeployer ''app1'' [] [] []) [] (kptfileWorld ''bare''))
     = Returns (Some [], None)
   \<and> events (snd (snd (Deploy testEnvSilentInit (testDeployer ''app1'' [] [] []) []
        (kptfileWorld ''bare''))))
     = [Exec [''kpt'', ''live'', ''init'', ''app'', ''--name'', ''app1''],
        Exec [''kpt'', ''fn'', ''source'', ''app''],
        DeployInfoEvent (Errorf ''could not read the hydrated manifest from %v: %w'' [''app'']
           (sourceErr (Err ''exit status 1'') ''app'')),
        Exec [''kpt'', ''live'', ''apply'', ''app''],
        AddTagsToPodSelector [],
        RegisterArtifacts []]
   \<and> openFile (fs (snd (snd (Deploy testEnvSilentInit (testDeployer ''app1'' [] [] []) []
        (kptfileWorld ''bare''))))) ''app/Kptfile''
     = Inr ''bare''"
proof -
  let ?k = "testDeployer ''app1'' [] [] []"
  let ?w = "kptfileWorld ''bare''"
  let ?w1 = "\<lparr>fs = [''app/Kptfile'' \<mapsto> File True True ''bare''],
             events = [Exec [''kpt'', ''live'', ''init'', ''app'', ''--name'', ''app1'']]\<rparr>"
  let ?w2 = "\<lparr>fs = [''app/Kptfile'' \<mapsto> File True True ''bare''],
             events = [Exec [''kpt'', ''live'', ''init'', ''app'', ''--name'', ''app1''],
                       Exec [''kpt'', ''fn'', ''source'', ''app''],
                       DeployInfoEvent (Errorf ''could not read the hydrated manifest from %v: %w''
                          [''app''] (sourceErr (Err ''exit status 1'') ''app''))]\<rparr>"
  have r: "kptfileInitIfNot testEnvSilentInit ?k ?w = (Returns None, ?k, ?w1)"
    by (simp add: eval_defs test_defs)
  have g: "fst (getManifests testEnvSilentInit ?k ?w1)
             = (None, Some (sourceErr (Err ''exit status 1'') ''app''))"
    by (simp add: getManifests_def RunCmdOut_eq test_defs)
  then have g1: "fst (fst (getManifests testEnvSilentInit ?k ?w1)) = None"
    "snd (fst (getManifests testEnvSilentInit ?k ?w1)) = Some (sourceErr (Err ''exit status 1'') ''app'')"
    by simp_all
  have cn: "CollectNamespaces testEnvSilentInit None = (Some [], None)"
    by (simp add: test_defs)
  have so: "snd (runCmdOut testEnvSilentInit [''kpt'', ''fn'', ''source'', ''app''] (fs ?w1)) = fs ?w1"
    by (simp add: test_defs)
  have ad: "applyDir ?k = ''app''"
    by (simp add: test_defs)
  have c: "Deploy_collect testEnvSilentInit ?k ?w1 = (Some [], ?w2)"
    using so by (simp add: Deploy_collect_eq g1 cn ad)
  have ap: "runCmd testEnvSilentInit (''kpt'' # applyArgs ?k) (fs ?w2) = (None, fs ?w2)"
    by (simp add: applyArgs_eq test_defs)
  have aa: "''kpt'' # applyArgs ?k = [''kpt'', ''live'', ''apply'', ''app'']"
    by (simp add: applyArgs_eq test_defs)
  have d: "Deploy testEnvSilentInit ?k [] ?w
        = (Returns (Some [], None), ?k,
           \<lparr>fs = [''app/Kptfile'' \<mapsto> File True True ''bare''],
            events = events ?w2 @ [Exec [''kpt'', ''live'', ''apply'', ''app''],
                                   AddTagsToPodSelector [], RegisterArtifacts []]\<rparr>)"
    using ap by (simp add: Deploy_eq r c Deploy_apply_eq aa)
  have e1: "openFile (fs (kptfileWorld ''bare'')) ''app/Kptfile'' = Inr ''bare''"
    "decode testEnvSilentInit ''bare'' = Inr (Some \<lparr>Inventory = None\<rparr>)"
    by (simp_all add: test_defs openFile_def)
  have e3: "\<not> hasInventory testEnvSilentInit [''app/Kptfile'' \<mapsto> File True True ''bare'']
               ''app/Kptfile''"
    by (simp add: test_defs hasInventory_def openFile_def)
  have e4: "openFile [''app/Kptfile'' \<mapsto> File True True ''bare''] ''app/Kptfile'' = Inr ''bare''"
    by (simp add: openFile_def)
  show ?thesis
    using e1 e3 e4 by (simp add: r c d)
qed

text \<open>
  Claim C4, amended. In every execution of \<^verbatim>\<open>Deploy\<close>, \<^verbatim>\<open>kpt live apply\<close> is reached only
  after the reconciler has returned without an error: when the reconciler returns an
  error or panics, \<^verbatim>\<open>Deploy\<close> ends with that and no \<^verbatim>\<open>kpt live apply\<close> has run. The
  reconciler returns without an error only in two ways: its last step was the successful
  write of a Kptfile struct that has an inventory block, or its last step was a
  \<^verbatim>\<open>kpt live init\<close> that reported success, after which the state file is not read again.
  \<^verbatim>\<open>Deploy\<close> then runs \<^verbatim>\<open>kpt fn source\<close> and, as its first \<^verbatim>\<open>kpt live apply\<close>, the apply
  on the file system left by these steps. The state file has an inventory block (a
  non-nil \<open>Inventory\<close>) at that point whenever the collaborators keep to their contracts:
  a \<^verbatim>\<open>kpt live init\<close> that succeeds leaves a state file with an inventory block, a
  marshalled Kptfile decodes to itself, and \<^verbatim>\<open>kpt fn source\<close> does not take the block
  away.
\<close>

theorem C4_apply_requires_inventory:
  "case kptfileInitIfNot env k w of (r, k1, w1) \<Rightarrow>
     (case r of
        Panics msg \<Rightarrow>
          Deploy env k builds w = (Panics msg, k1, w1)
          \<and> filter isLiveApply (drop (length (events w)) (events w1)) = []
      | Returns (Some err) \<Rightarrow>
          Deploy env k builds w = (Returns (None, Some err), k1, w1)
          \<and> filter isLiveApply (drop (length (events w)) (events w1)) = []
      | Returns None \<Rightarrow>
          (case Deploy_collect env k1 w1 of (nss, w2) \<Rightarrow>
             ((\<exists>kf b. Inventory kf \<noteq> None \<and> marshal env kf = Inr b
                  \<and> events w1 \<noteq> []
                  \<and> last (events w1) = WriteFile (kptFilePath_of env k) b
                  \<and> fs w1 (kptFilePath_of env k) = Some (File True True b))
              \<or> (\<exists>f0. runCmd env (''kpt'' # liveInitArgs k) f0 = (None, fs w1)
                  \<and> events w1 \<noteq> []
                  \<and> last (events w1) = Exec (''kpt'' # liveInitArgs k)))
             \<and> fs w2 = snd (runCmdOut env [''kpt'', ''fn'', ''source'', applyDir k] (fs w1))
             \<and> filter isLiveApply (drop (length (events w)) (events w2)) = []
             \<and> isLiveApply (Exec (''kpt'' # applyArgs k1))
             \<and> Deploy env k builds w =
                 (case fst (runCmd env (''kpt'' # applyArgs k1) (fs w2)) of
                    Some err \<Rightarrow>
                      (Returns (None, Some (liveApplyErr err (applyDir k))), k1,
                       w2\<lparr>fs := snd (runCmd env (''kpt'' # applyArgs k1) (fs w2)),
                          events := events w2 @ [Exec (''kpt'' # applyArgs k1)]\<rparr>)
                  | None \<Rightarrow>
                      (Returns (nss, None), k1,
                       w2\<lparr>fs := snd (runCmd env (''kpt'' # applyArgs k1) (fs w2)),
                          events := events w2 @ [Exec (''kpt'' # applyArgs k1),
                            AddTagsToPodSelector builds, RegisterArtifacts builds]\<rparr>))
             \<and> ((\<forall>f f'. runCmd env (''kpt'' # liveInitArgs k) f = (None, f')
                       \<longrightarrow> hasInventory env f' (kptFilePath_of env k))
                  \<and> (\<forall>x b. marshal env x = Inr b \<longrightarrow> decode env b = Inr (Some x))
                  \<and> (\<forall>f. hasInventory env f (kptFilePath_of env k)
                       \<longrightarrow> hasInventory env
                             (snd (runCmdOut env [''kpt'', ''fn'', ''source'', applyDir k] f))
                             (kptFilePath_of env k))
                 \<longrightarrow> hasInventory env (fs w2) (kptFilePath_of env k))))"
proof -
  obtain r k1 w1 where run: "kptfileInitIfNot env k w = (r, k1, w1)"
    by (cases "kptfileInitIfNot env k w") auto
  from kptfileInitIfNot_events [of env k w] run obtain evs
    where evs: "events w1 = events w @ evs"
      "\<forall>e\<in>set evs. isPkgInit e \<or> isLiveInit e \<or> isWarnf e \<or> isWriteFile e"
    by auto
  have no_apply: "filter isLiveApply evs = []"
    using evs(2) not_isLiveApply by (fastforce simp: filter_empty_conv)
  show ?thesis
  proof (cases r)
    case (Panics msg)
    with run evs(1) no_apply show ?thesis
      by (simp add: Deploy_eq)
  next
    case (Returns e)
    show ?thesis
    proof (cases e)
      case (Some err)
      with Returns run evs(1) no_apply show ?thesis
        by (simp add: Deploy_eq)
    next
      case None
      with Returns run have ok: "fst (kptfileInitIfNot env k w) = Returns None"
        by simp
      have dir: "applyDir k1 = applyDir k"
        using kptfileInitIfNot_applyDir [of env k w] run by simp
      obtain nss w2 where col: "Deploy_collect env k1 w1 = (nss, w2)"
        by (cases "Deploy_collect env k1 w1") auto
      from col have fs2: "fs w2 = snd (runCmdOut env [''kpt'', ''fn'', ''source'', applyDir k] (fs w1))"
        by (auto simp: Deploy_collect_eq dir)
      from col obtain infos where infos:
        "events w2 = events w1 @ Exec [''kpt'', ''fn'', ''source'', applyDir k] # infos"
        "\<forall>e\<in>set infos. isDeployInfoEvent e"
        by (auto simp: Deploy_collect_eq dir split: option.splits)
      have "filter isLiveApply (Exec [''kpt'', ''fn'', ''source'', applyDir k] # infos) = []"
        using infos(2) not_isLiveApply by (fastforce simp: filter_empty_conv)
      with no_apply evs(1) infos(1)
      have a: "filter isLiveApply (drop (length (events w)) (events w2)) = []"
        by simp
      have b: "(\<exists>kf b. Inventory kf \<noteq> None \<and> marshal env kf = Inr b
                  \<and> events w1 \<noteq> []
                  \<and> last (events w1) = WriteFile (kptFilePath_of env k) b
                  \<and> fs w1 (kptFilePath_of env k) = Some (File True True b))
              \<or> (\<exists>f0. runCmd env (''kpt'' # liveInitArgs k) f0 = (None, fs w1)
                  \<and> events w1 \<noteq> []
                  \<and> last (events w1) = Exec (''kpt'' # liveInitArgs k))"
        using kptfileInitIfNot_success [OF ok] run by simp
      have c: "isLiveApply (Exec (''kpt'' # applyArgs k1))"
        by (simp add: applyArgs_eq)
      have d: "Deploy env k builds w =
                 (case fst (runCmd env (''kpt'' # applyArgs k1) (fs w2)) of
                    Some err \<Rightarrow>
                      (Returns (None, Some (liveApplyErr err (applyDir k))), k1,
                       w2\<lparr>fs := snd (runCmd env (''kpt'' # applyArgs k1) (fs w2)),
                          events := events w2 @ [Exec (''kpt'' # applyArgs k1)]\<rparr>)
                  | None \<Rightarrow>
                      (Returns (nss, None), k1,
                       w2\<lparr>fs := snd (runCmd env (''kpt'' # applyArgs k1) (fs w2)),
                          events := events w2 @ [Exec (''kpt'' # applyArgs k1),
                            AddTagsToPodSelector builds, RegisterArtifacts builds]\<rparr>))"
        using run Returns None col
        by (simp add: Deploy_eq Deploy_apply_eq dir split: option.splits)
      have e: "(\<forall>f f'. runCmd env (''kpt'' # liveInitArgs k) f = (None, f')
                       \<longrightarrow> hasInventory env f' (kptFilePath_of env k))
                  \<and> (\<forall>x b. marshal env x = Inr b \<longrightarrow> decode env b = Inr (Some x))
                  \<and> (\<forall>f. hasInventory env f (kptFilePath_of env k)
                       \<longrightarrow> hasInventory env
                             (snd (runCmdOut env [''kpt'', ''fn'', ''source'', applyDir k] f))
                             (kptFilePath_of env k))
                 \<longrightarrow> hasInventory env (fs w2) (kptFilePath_of env k)"
      proof (intro impI, elim conjE)
        assume liveInit: "\<forall>f f'. runCmd env (''kpt'' # liveInitArgs k) f = (None, f')
                       \<longrightarrow> hasInventory env f' (kptFilePath_of env k)"
          and yaml: "\<forall>x b. marshal env x = Inr b \<longrightarrow> decode env b = Inr (Some x)"
          and source: "\<forall>f. hasInventory env f (kptFilePath_of env k)
                       \<longrightarrow> hasInventory env
                             (snd (runCmdOut env [''kpt'', ''fn'', ''source'', applyDir k] f))
                             (kptFilePath_of env k)"
        have "hasInventory env (fs w1) (kptFilePath_of env k)"
          using kptfileInitIfNot_hasInventory [OF liveInit yaml ok] run by simp
        with source show "hasInventory env (fs w2) (kptFilePath_of env k)"
          unfolding fs2 by blast
      qed
      from run Returns None col a b c d e fs2 show ?thesis
        by simp
    qed
  qed
qed

theorem C4_apply_requires_inventory_witness:
  "\<not> hasInventory testEnv0 (fs (testWorld [])) ''app/Kptfile''
   \<and> fst (kptfileInitIfNot testEnv0 (testDeployer ''app1'' [] [] []) (testWorld [])) = Returns None
   \<and> last (events (snd (snd (kptfileInitIfNot testEnv0 (testDeployer ''app1'' [] [] []) (testWorld [])))))
     = Exec [''kpt'', ''live'', ''init'', ''app'', ''--name'', ''app1'']
   \<and> hasInventory testEnv0
        (fs (snd (Deploy_collect testEnv0 (testDeployer ''app1'' [] [] [])
           (snd (snd (kptfileInitIfNot testEnv0 (testDeployer ''app1'' [] [] []) (testWorld [])))))))
        ''app/Kptfile''
   \<and> fst (Deploy testEnv0 (testDeployer ''app1'' [] [] []) [] (testWorld [])) = Returns (Some [], None)"
proof -
  let ?k = "testDeployer ''app1'' [] [] []"
  let ?w1 = "snd (snd (kptfileInitIfNot testEnv0 ?k (testWorld [])))"
  let ?w2 = "snd (Deploy_collect testEnv0 ?k ?w1)"
  have liveInit: "\<forall>f f'. runCmd testEnv0 (''kpt'' # liveInitArgs ?k) f = (None, f')
        \<longrightarrow> hasInventory testEnv0 f' (kptFilePath_of testEnv0 ?k)"
    by (auto simp: test_defs hasInventory_def openFile_def liveInitArgs_eq)
  have yaml: "\<forall>x b. marshal testEnv0 x = Inr b \<longrightarrow> decode testEnv0 b = Inr (Some x)"
    by (auto simp: test_defs split: if_splits)
  have source: "\<forall>f. hasInventory testEnv0 f (kptFilePath_of testEnv0 ?k)
        \<longrightarrow> hasInventory testEnv0
              (snd (runCmdOut testEnv0 [''kpt'', ''fn'', ''source'', applyDir ?k] f))
              (kptFilePath_of testEnv0 ?k)"
    by (simp add: test_defs)
  have run: "fst (kptfileInitIfNot testEnv0 ?k (testWorld [])) = Returns None"
    "fst (snd (kptfileInitIfNot testEnv0 ?k (testWorld []))) = ?k"
    "last (events ?w1) = Exec [''kpt'', ''live'', ''init'', ''app'', ''--name'', ''app1'']"
    by (simp_all add: eval_defs test_defs)
  have col: "fst (Deploy_collect testEnv0 ?k ?w1) = Some []"
    by (simp add: Deploy_collect_eq test_defs)
  have ap: "fst (runCmd testEnv0 (''kpt'' # applyArgs ?k) (fs ?w2)) = None"
    by (simp add: applyArgs_eq test_defs)
  have start: "\<not> hasInventory testEnv0 (fs (testWorld [])) ''app/Kptfile''"
    by (simp add: test_defs hasInventory_def openFile_def)
  have path: "kptFilePath_of testEnv0 ?k = ''app/Kptfile''"
    by (simp add: test_defs)
  from C4_apply_requires_inventory [of testEnv0 ?k "testWorld []" "[]"]
    liveInit yaml source run(1,2) col ap
  have "hasInventory testEnv0 (fs ?w2) ''app/Kptfile''
        \<and> fst (Deploy testEnv0 ?k [] (testWorld [])) = Returns (Some [], None)"
    by (auto simp: path split: prod.splits)
  with run(1,3) start show ?thesis
    by simp
qed

text \<open>
  Claim C8. When the reconciler succeeds and reading the hydrated manifests fails, or
  collecting their namespaces fails, \<^verbatim>\<open>Deploy\<close> reports each failure as an informational
  event, then runs \<^verbatim>\<open>kpt live apply\<close>; when the apply succeeds it tracks the build
  artifacts and returns the namespace list that the collector returned, with no error.
\<close>

theorem C8_render_failure_nonfatal:
  assumes "kptfileInitIfNot env k w = (Returns None, k1, w1)"
    and "getManifests env k1 w1 = ((manifests, merr), w2)"
    and "CollectNamespaces env manifests = (nss, cerr)"
    and "merr \<noteq> None \<or> cerr \<noteq> None"
    and "infos =
       (case merr of
          Some e \<Rightarrow> [DeployInfoEvent
             (Errorf ''could not read the hydrated manifest from %v: %w'' [applyDir k1] e)]
        | None \<Rightarrow> [])
       @ (case cerr of
            Some e \<Rightarrow> [DeployInfoEvent
               (Errorf (''could not fetch deployed resource namespace. ''
                  @ ''This might cause port-forward and deploy health-check to fail: %w'') [] e)]
          | None \<Rightarrow> [])"
  shows "infos \<noteq> [] \<and> (\<forall>e\<in>set infos. isDeployInfoEvent e)
     \<and> isLiveApply (Exec (''kpt'' # applyArgs k1))
     \<and> (case runCmd env (''kpt'' # applyArgs k1) (fs w2) of
          (None, f') \<Rightarrow>
            Deploy env k builds w =
              (Returns (nss, None), k1,
               w2\<lparr>fs := f',
                  events := events w2 @ infos
                    @ [Exec (''kpt'' # applyArgs k1), AddTagsToPodSelector builds,
                       RegisterArtifacts builds]\<rparr>)
        | (Some err, f') \<Rightarrow>
            Deploy env k builds w =
              (Returns (None, Some (liveApplyErr err (applyDir k1))), k1,
               w2\<lparr>fs := f', events := events w2 @ infos @ [Exec (''kpt'' # applyArgs k1)]\<rparr>))"
proof -
  have w2: "w2 = w1\<lparr>fs := snd (runCmdOut env [''kpt'', ''fn'', ''source'', applyDir k1] (fs w1)),
       events := events w1 @ [Exec [''kpt'', ''fn'', ''source'', applyDir k1]]\<rparr>"
    using getManifests_world [of env k1 w1] assms(2) by simp
  have col: "Deploy_collect env k1 w1 = (nss, w2\<lparr>events := events w2 @ infos\<rparr>)"
    using assms(2,3) by (simp add: Deploy_collect_eq w2 assms(5))
  have a: "infos \<noteq> []"
    using assms(4) by (auto simp: assms(5))
  have b: "\<forall>e\<in>set infos. isDeployInfoEvent e"
    by (auto simp: assms(5) split: option.splits)
  have c: "isLiveApply (Exec (''kpt'' # applyArgs k1))"
    by (simp add: applyArgs_eq)
  have d: "Deploy env k builds w = Deploy_apply env k1 builds nss (w2\<lparr>events := events w2 @ infos\<rparr>)"
    using assms(1) col by (simp add: Deploy_eq)
  show ?thesis
    unfolding d Deploy_apply_eq using a b c
    by (cases "runCmd env (''kpt'' # applyArgs k1) (fs w2)") (auto split: option.splits)
qed

theorem C8_render_failure_nonfatal_witness:
  "fst (kptfileInitIfNot testEnv0 (testDeployer [] [] [] []) (kptfileWorld ''x/old/default'')) = Returns None
   \<and> fst (getManifests testEnv0 (testDeployer [] [] ''default'' ''default'')
        (snd (snd (kptfileInitIfNot testEnv0 (testDeployer [] [] [] []) (kptfileWorld ''x/old/default'')))))
     = (None, Some (sourceErr (Err ''exit status 1'') ''app''))
   \<and> CollectNamespaces testEnv0 None = (Some [], None)
   \<and> fst (runCmd testEnv0 (''kpt'' # applyArgs (testDeployer [] [] ''default'' ''default''))
        (fs (snd (getManifests testEnv0 (testDeployer [] [] ''default'' ''default'')
        (snd (snd (kptfileInitIfNot testEnv0 (testDeployer [] [] [] []) (kptfileWorld ''x/old/default''))))))))
     = None
   \<and> fst (Deploy testEnv0 (testDeployer [] [] [] []) [(''img'', ''img:v1'')] (kptfileWorld ''x/old/default''))
     = Returns (Some [], None)
   \<and> events (snd (snd (Deploy testEnv0 (testDeployer [] [] [] []) [(''img'', ''img:v1'')]
        (kptfileWorld ''x/old/default''))))
     = [WriteFile ''app/Kptfile'' ''x/old/default'',
        Exec [''kpt'', ''fn'', ''source'', ''app''],
        DeployInfoEvent (Errorf ''could not read the hydrated manifest from %v: %w'' [''app'']
           (sourceErr (Err ''exit status 1'') ''app'')),
        Exec [''kpt'', ''live'', ''apply'', ''app''],
        AddTagsToPodSelector [(''img'', ''img:v1'')],
        RegisterArtifacts [(''img'', ''img:v1'')]]"
proof -
  let ?k = "testDeployer [] [] [] []"
  let ?k1 = "testDeployer [] [] ''default'' ''default''"
  let ?w = "kptfileWorld ''x/old/default''"
  let ?w1 = "snd (snd (kptfileInitIfNot testEnv0 ?k ?w))"
  let ?w2 = "snd (getManifests testEnv0 ?k1 ?w1)"
  have r: "fst (kptfileInitIfNot testEnv0 ?k ?w) = Returns None"
    "fst (snd (kptfileInitIfNot testEnv0 ?k ?w)) = ?k1"
    "events ?w1 = [WriteFile ''app/Kptfile'' ''x/old/default'']"
    by (simp_all add: eval_defs test_defs)
  then have h1: "kptfileInitIfNot testEnv0 ?k ?w = (Returns None, ?k1, ?w1)"
    by (simp add: prod_eq_iff)
  have g: "fst (getManifests testEnv0 ?k1 ?w1) = (None, Some (sourceErr (Err ''exit status 1'') ''app''))"
    by (simp add: getManifests_def RunCmdOut_eq test_defs)
  then have h2: "getManifests testEnv0 ?k1 ?w1 = ((None, Some (sourceErr (Err ''exit status 1'') ''app'')), ?w2)"
    by (simp add: prod_eq_iff)
  have h3: "CollectNamespaces testEnv0 None = (Some [], None)"
    by (simp add: test_defs)
  have ap: "runCmd testEnv0 (''kpt'' # applyArgs ?k1) (fs ?w2) = (None, fs ?w2)"
    by (simp add: applyArgs_eq test_defs)
  have ev2: "events ?w2 = [WriteFile ''app/Kptfile'' ''x/old/default'', Exec [''kpt'', ''fn'', ''source'', ''app'']]"
    by (simp add: getManifests_world r(3)) (simp add: test_defs)
  from C8_render_failure_nonfatal [OF h1 h2 h3 _ refl, of "[(''img'', ''img:v1'')]"] ap ev2
  have "fst (Deploy testEnv0 ?k [(''img'', ''img:v1'')] ?w) = Returns (Some [], None)"
    "events (snd (snd (Deploy testEnv0 ?k [(''img'', ''img:v1'')] ?w)))
     = [WriteFile ''app/Kptfile'' ''x/old/default'',
        Exec [''kpt'', ''fn'', ''source'', ''app''],
        DeployInfoEvent (Errorf ''could not read the hydrated manifest from %v: %w'' [''app'']
           (sourceErr (Err ''exit status 1'') ''app'')),
        Exec [''kpt'', ''live'', ''apply'', ''app''],
        AddTagsToPodSelector [(''img'', ''img:v1'')],
        RegisterArtifacts [(''img'', ''img:v1'')]]"
    by (simp_all add: applyArgs_eq testDeployer_def)
  with r(1) g h3 ap show ?thesis
    by simp
qed

text \<open>
  Claim C9. When \<^verbatim>\<open>kpt live apply\<close> fails, \<^verbatim>\<open>Deploy\<close> returns a nil namespace list and the
  failure wrapped by \<^verbatim>\<open>liveApplyErr\<close> together with the directory, the failed command is
  the last thing the execution did, and \<^verbatim>\<open>TrackBuildArtifacts\<close> is not called anywhere
  in the execution.
\<close>

theorem C9_apply_failure_fatal:
  assumes "kptfileInitIfNot env k w = (Returns None, k1, w1)"
    and "Deploy_collect env k1 w1 = (nss, w2)"
    and "runCmd env (''kpt'' # applyArgs k1) (fs w2) = (Some err, f')"
  shows "case Deploy env k builds w of (res, k', w') \<Rightarrow>
     res = Returns (None, Some (liveApplyErr err (applyDir k)))
     \<and> events w' = events w2 @ [Exec (''kpt'' # applyArgs k1)]
     \<and> filter isTrackBuildArtifacts (drop (length (events w)) (events w')) = []"
proof -
  have dir: "applyDir k1 = applyDir k"
    using kptfileInitIfNot_applyDir [of env k w] assms(1) by simp
  from kptfileInitIfNot_events [of env k w] assms(1) obtain evs
    where evs: "events w1 = events w @ evs"
      "\<forall>e\<in>set evs. isPkgInit e \<or> isLiveInit e \<or> isWarnf e \<or> isWriteFile e"
    by auto
  from assms(2) obtain infos where infos:
    "events w2 = events w1 @ Exec [''kpt'', ''fn'', ''source'', applyDir k1] # infos"
    "\<forall>e\<in>set infos. isDeployInfoEvent e"
    by (auto simp: Deploy_collect_eq split: option.splits)
  have t1: "filter isTrackBuildArtifacts evs = []"
    using evs(2) not_isTrackBuildArtifacts by (fastforce simp: filter_empty_conv)
  have t2: "filter isTrackBuildArtifacts infos = []"
    using infos(2) not_isTrackBuildArtifacts by (fastforce simp: filter_empty_conv)
  have "Deploy env k builds w =
      (Returns (None, Some (liveApplyErr err (applyDir k))), k1,
       w2\<lparr>fs := f', events := events w2 @ [Exec (''kpt'' # applyArgs k1)]\<rparr>)"
    using assms by (simp add: Deploy_eq Deploy_apply_eq dir)
  then show ?thesis
    using evs(1) infos(1) t1 t2 by simp
qed

theorem C9_apply_failure_fatal_witness:
  "fst (kptfileInitIfNot testEnvFailing (testDeployer [] [] [] []) (kptfileWorld ''x/old/default'')) = Returns None
   \<and> fst (runCmd testEnvFailing (''kpt'' # applyArgs (testDeployer [] [] ''default'' ''default''))
        (fs (snd (Deploy_collect testEnvFailing (testDeployer [] [] ''default'' ''default'')
        (snd (snd (kptfileInitIfNot testEnvFailing (testDeployer [] [] [] [])
           (kptfileWorld ''x/old/default''))))))))
     = Some (Err ''exit status 1'')
   \<and> fst (Deploy testEnvFailing (testDeployer [] [] [] []) [(''img'', ''img:v1'')]
        (kptfileWorld ''x/old/default''))
     = Returns (None, Some (liveApplyErr (Err ''exit status 1'') ''app''))
   \<and> filter isTrackBuildArtifacts
        (events (snd (snd (Deploy testEnvFailing (testDeployer [] [] [] []) [(''img'', ''img:v1'')]
           (kptfileWorld ''x/old/default'')))))
     = []"
proof -
  let ?k = "testDeployer [] [] [] []"
  let ?k1 = "testDeployer [] [] ''default'' ''default''"
  let ?w = "kptfileWorld ''x/old/default''"
  let ?w1 = "snd (snd (kptfileInitIfNot testEnvFailing ?k ?w))"
  let ?w2 = "snd (Deploy_collect testEnvFailing ?k1 ?w1)"
  have r: "fst (kptfileInitIfNot testEnvFailing ?k ?w) = Returns None"
    "fst (snd (kptfileInitIfNot testEnvFailing ?k ?w)) = ?k1"
    by (simp_all add: eval_defs test_defs)
  then have h1: "kptfileInitIfNot testEnvFailing ?k ?w = (Returns None, ?k1, ?w1)"
    by (simp add: prod_eq_iff)
  have h2: "Deploy_collect testEnvFailing ?k1 ?w1 = (fst (Deploy_collect testEnvFailing ?k1 ?w1), ?w2)"
    by simp
  have h3: "runCmd testEnvFailing (''kpt'' # applyArgs ?k1) (fs ?w2) = (Some (Err ''exit status 1''), fs ?w2)"
    by (simp add: test_defs)
  have ev: "events ?w = []" "applyDir ?k = ''app''"
    by (simp_all add: test_defs)
  from C9_apply_failure_fatal [OF h1 h2 h3, of "[(''img'', ''img:v1'')]"] ev
  have "fst (Deploy testEnvFailing ?k [(''img'', ''img:v1'')] ?w)
          = Returns (None, Some (liveApplyErr (Err ''exit status 1'') ''app''))"
    "filter isTrackBuildArtifacts
        (events (snd (snd (Deploy testEnvFailing ?k [(''img'', ''img:v1'')] ?w)))) = []"
    by (auto split: prod.splits)
  with r(1) h3 show ?thesis
    by simp
qed

end
